theory Spec2Isabelle
  imports Complex_Main "HOL-Library.Word" "HOL-Library.Multiset"
begin

section \<open>Tables of the ledger store\<close>

text \<open>
  Modelled from the spec: the tables of the store. The handlers of \<^verbatim>\<open>src/index.js\<close> talk
  to PostgreSQL through SQL text, and the schema is not part of the repository; the rows
  have the columns the SQL statements name, with the types of the spec (section 3):
  identifiers are naturals, money values are integers, timestamps are naturals (a point on
  the database clock).
\<close>

datatype transaction_type = TOPUP | PAYMENT

record balance_row =
  balance_id :: nat
  user_id :: nat
  balance_value :: int

record history_row =
  h_balance_id :: nat
  invoice_number :: string
  amount :: int
  balance_before :: int
  balance_after :: int
  trx_type :: transaction_type
  description :: string
  created_date :: nat

record service_row =
  service_code :: string
  service_name :: string
  service_tariff :: int

text \<open>
  Besides the four tables, the store has \<open>tie_rank\<close>: SQL leaves the order of rows with
  equal \<^verbatim>\<open>created_date\<close> open, and PostgreSQL may order them differently from one query to
  the next. \<open>tie_rank d uid paging h\<close> is the rank the server gives row \<open>h\<close> among such rows
  when it answers the history query of user \<open>uid\<close> with the \<^verbatim>\<open>LIMIT\<close>/\<^verbatim>\<open>OFFSET\<close> arguments
  \<open>paging\<close>; the model knows nothing about it.
\<close>

record db =
  tbl_balance :: "balance_row list"
  tbl_trx_history :: "history_row list"
  tbl_service :: "service_row list"
  tbl_user :: "nat list"
  tie_rank :: "nat \<Rightarrow> (int option \<times> int option) option \<Rightarrow> history_row \<Rightarrow> nat"

text \<open>The five columns the history listing selects for each row.\<close>

record history_view =
  v_invoice_number :: string
  v_transaction_type :: transaction_type
  v_description :: string
  v_total_amount :: int
  v_created_on :: nat

section \<open>SQL statements and their results\<close>

text \<open>
  One constructor for each SQL text that occurs in the top-up, payment and history handlers,
  with its parameters in the order of the \<^verbatim>\<open>$n\<close> placeholders. \<open>Rollback\<close> belongs to the
  store's interface; no handler of the source sends it.

  The amount of \<open>InsertHistory\<close> is the raw JavaScript number the handler passes (a
  rational); the limit and offset of \<open>SelectHistory\<close> are results of \<^verbatim>\<open>parseInt\<close>, where
  \<open>None\<close> stands for a result that is not a finite number (\<^verbatim>\<open>NaN\<close> or an infinity).
\<close>

datatype stmt =
    SelectBalanceValue nat
  | InsertBalance nat
  | Begin
  | UpdateBalanceByUser int nat
  | InsertHistory nat string rat int int transaction_type string
  | Commit
  | Rollback
  | SelectBalance nat
  | SelectService string
  | UpdateBalanceById int nat
  | SelectHistory nat "(int option \<times> int option) option"

datatype qres =
    QError
  | CommandOk
  | BalanceRows "balance_row list"
  | ServiceRows "service_row list"
  | HistoryRows "history_row list"
  | HistoryViews "history_view list"

text \<open>
  Modelled from the spec: the serial key of \<^verbatim>\<open>tbl_balance\<close> (the table definition is not
  in the repository). A new row gets an identifier above every identifier in the table.
\<close>

definition fresh_balance_id :: "db \<Rightarrow> nat" where
  "fresh_balance_id d = Suc (foldr max (map balance_id (tbl_balance d)) 0)"

text \<open>
  The join of the history listing:
  \<^verbatim>\<open>FROM tbl_trx_history trx LEFT JOIN tbl_balance balance ON trx.balance_id = balance.balance_id
    LEFT JOIN tbl_user usr ON usr.user_id = balance.user_id WHERE usr.user_id = $1\<close>.
  The \<^verbatim>\<open>WHERE\<close> clause discards the rows the left joins pad with nulls, so the result has
  one row for each matching triple.
\<close>

definition history_join :: "db \<Rightarrow> nat \<Rightarrow> history_row list" where
  "history_join d uid =
     concat (map (\<lambda>h.
       concat (map (\<lambda>b.
         if h_balance_id h = balance_id b
         then concat (map (\<lambda>u. if u = user_id b \<and> u = uid then [h] else []) (tbl_user d))
         else []) (tbl_balance d))) (tbl_trx_history d))"

text \<open>
  \<^verbatim>\<open>ORDER BY created_date DESC\<close>: newest first, and rows with equal timestamps in the order
  of the rank the server gives them (highest rank first). Every order of such rows is the
  result for some rank.
\<close>

definition order_by_created_desc :: "(history_row \<Rightarrow> nat) \<Rightarrow> history_row list \<Rightarrow> history_row list" where
  "order_by_created_desc rank hs = rev (sort_key created_date (sort_key rank hs))"

definition view_of :: "history_row \<Rightarrow> history_view" where
  "view_of h = \<lparr> v_invoice_number = invoice_number h, v_transaction_type = trx_type h,
                v_description = description h, v_total_amount = amount h,
                v_created_on = created_date h \<rparr>"

text \<open>
  Modelled from the spec: the amount column of the history table holds integers (spec,
  section 3), so PostgreSQL rejects a parameter that is not a whole number.
\<close>

definition is_whole :: "rat \<Rightarrow> bool" where
  "is_whole x = (x = of_int \<lfloor>x\<rfloor>)"

text \<open>
  The effect of one data statement on the tables, at database time \<open>now\<close>. A statement that
  PostgreSQL rejects gives \<open>QError\<close> and leaves the tables as they are: a fractional
  amount, and a \<^verbatim>\<open>LIMIT\<close> or \<^verbatim>\<open>OFFSET\<close> that is not a finite number, is negative or is
  beyond the 64-bit integers these two arguments are read as.
\<close>

fun apply_stmt :: "nat \<Rightarrow> stmt \<Rightarrow> db \<Rightarrow> qres \<times> db" where
  "apply_stmt now (SelectBalanceValue uid) d =
     (BalanceRows (filter (\<lambda>b. user_id b = uid) (tbl_balance d)), d)"
| "apply_stmt now (SelectBalance uid) d =
     (BalanceRows (filter (\<lambda>b. user_id b = uid) (tbl_balance d)), d)"
| "apply_stmt now (InsertBalance uid) d =
     (CommandOk,
      d\<lparr>tbl_balance := tbl_balance d @
          [\<lparr>balance_id = fresh_balance_id d, user_id = uid, balance_value = 0\<rparr>]\<rparr>)"
| "apply_stmt now (UpdateBalanceByUser v uid) d =
     (let rows = map (\<lambda>b. if user_id b = uid then b\<lparr>balance_value := v\<rparr> else b) (tbl_balance d)
      in (BalanceRows (filter (\<lambda>b. user_id b = uid) rows), d\<lparr>tbl_balance := rows\<rparr>))"
| "apply_stmt now (UpdateBalanceById v bid) d =
     (CommandOk,
      d\<lparr>tbl_balance :=
          map (\<lambda>b. if balance_id b = bid then b\<lparr>balance_value := v\<rparr> else b) (tbl_balance d)\<rparr>)"
| "apply_stmt now (InsertHistory bid invno amt before after ty descr) d =
     (if is_whole amt
      then (let h = \<lparr> h_balance_id = bid, invoice_number = invno, amount = \<lfloor>amt\<rfloor>,
                       balance_before = before, balance_after = after, trx_type = ty,
                       description = descr, created_date = now \<rparr>
            in (HistoryRows [h], d\<lparr>tbl_trx_history := tbl_trx_history d @ [h]\<rparr>))
      else (QError, d))"
| "apply_stmt now (SelectService code) d =
     (ServiceRows (filter (\<lambda>sv. service_code sv = code) (tbl_service d)), d)"
| "apply_stmt now (SelectHistory uid paging) d =
     (let rows = order_by_created_desc (tie_rank d uid paging) (history_join d uid) in
      case paging of
        None \<Rightarrow> (HistoryViews (map view_of rows), d)
      | Some (Some l, Some off) \<Rightarrow>
          (if l < 0 \<or> off < 0 \<or> 2 ^ 63 \<le> l \<or> 2 ^ 63 \<le> off then (QError, d)
           else (HistoryViews (map view_of (take (nat l) (drop (nat off) rows))), d))
      | Some _ \<Rightarrow> (QError, d))"
| "apply_stmt now Begin d = (CommandOk, d)"
| "apply_stmt now Commit d = (CommandOk, d)"
| "apply_stmt now Rollback d = (CommandOk, d)"

section \<open>A database session\<close>

text \<open>
  Modelled from the spec: the Ledger Store (spec, section 2), a transactional store with
  \<^verbatim>\<open>BEGIN\<close>/\<^verbatim>\<open>COMMIT\<close>/\<^verbatim>\<open>ROLLBACK\<close>; neither PostgreSQL nor the connection pool is
  code of the repository. \<open>committed\<close> is the durable state. Outside a transaction every
  statement commits by itself. Inside one (\<open>InTxn w\<close>), statements work on the copy \<open>w\<close>,
  which \<^verbatim>\<open>COMMIT\<close> makes durable and \<^verbatim>\<open>ROLLBACK\<close> discards. \<^verbatim>\<open>BEGIN\<close> inside a
  transaction and \<^verbatim>\<open>COMMIT\<close> outside one only warn.

  The handlers send every statement through \<^verbatim>\<open>pool.query\<close>. The model gives them one
  session, which is what the pool does while one statement at a time is in flight. When a
  statement fails, \<^verbatim>\<open>pool.query\<close> hands the connection back together with the error and
  the pool closes it; a transaction open on it is discarded by the server without being
  committed, and the next statement runs on a connection with no transaction.
\<close>

datatype txn_state = Idle | InTxn db

record session =
  committed :: db
  txn :: txn_state

fun is_control :: "stmt \<Rightarrow> bool" where
  "is_control Begin = True"
| "is_control Commit = True"
| "is_control Rollback = True"
| "is_control _ = False"

text \<open>
  \<open>exec now fault q s\<close> runs statement \<open>q\<close>. \<open>fault\<close> says that the statement fails for a
  reason outside the model (a constraint, the connection): it then has no effect on the
  tables; a \<^verbatim>\<open>COMMIT\<close> that fails has not committed.
\<close>

definition exec :: "nat \<Rightarrow> bool \<Rightarrow> stmt \<Rightarrow> session \<Rightarrow> qres \<times> session" where
  "exec now fault q s =
     (if fault then (QError, s\<lparr>txn := Idle\<rparr>)
      else case txn s of
        Idle \<Rightarrow>
          (if q = Begin then (CommandOk, s\<lparr>txn := InTxn (committed s)\<rparr>)
           else if is_control q then (CommandOk, s)
           else (case apply_stmt now q (committed s) of (r, d) \<Rightarrow> (r, s\<lparr>committed := d\<rparr>)))
      | InTxn w \<Rightarrow>
          (if q = Commit then (CommandOk, \<lparr>committed = w, txn = Idle\<rparr>)
           else if q = Rollback then (CommandOk, s\<lparr>txn := Idle\<rparr>)
           else if q = Begin then (CommandOk, s)
           else (case apply_stmt now q w of
                   (QError, _) \<Rightarrow> (QError, s\<lparr>txn := Idle\<rparr>)
                 | (r, w') \<Rightarrow> (r, s\<lparr>txn := InTxn w'\<rparr>))))"

text \<open>
  The rows the handlers work with: \<^verbatim>\<open>rows[0]\<close> of the balance query for a user and of the
  service query for a code.
\<close>

definition balance_of :: "db \<Rightarrow> nat \<Rightarrow> balance_row option" where
  "balance_of d uid =
     (case filter (\<lambda>b. user_id b = uid) (tbl_balance d) of [] \<Rightarrow> None | b # _ \<Rightarrow> Some b)"

definition service_of :: "db \<Rightarrow> string \<Rightarrow> service_row option" where
  "service_of d code =
     (case filter (\<lambda>sv. service_code sv = code) (tbl_service d) of [] \<Rightarrow> None | sv # _ \<Rightarrow> Some sv)"

section \<open>JavaScript values and helpers\<close>

text \<open>
  The request value \<^verbatim>\<open>top_up_amount\<close>: absent, \<^verbatim>\<open>null\<close>, or a finite JSON number. A
  finite double is a rational number; arithmetic on it is exact in the model, as it is in
  JavaScript on integers below \<open>2^53\<close>. Strings, booleans, arrays and objects in this
  field are outside the model.
\<close>

datatype jsval = JUndefined | JNull | JNum rat

text \<open>\<^verbatim>\<open>!v\<close>, \<^verbatim>\<open>isNaN(v)\<close> and \<^verbatim>\<open>v <= 0\<close> (both through \<^verbatim>\<open>Number(v)\<close>).\<close>

fun js_not :: "jsval \<Rightarrow> bool" where
  "js_not JUndefined = True"
| "js_not JNull = True"
| "js_not (JNum x) = (x = 0)"

fun js_isNaN :: "jsval \<Rightarrow> bool" where
  "js_isNaN JUndefined = True"
| "js_isNaN JNull = False"
| "js_isNaN (JNum x) = False"

fun js_le_zero :: "jsval \<Rightarrow> bool" where
  "js_le_zero JUndefined = False"
| "js_le_zero JNull = True"
| "js_le_zero (JNum x) = (x \<le> 0)"

text \<open>
  What the handlers take from the JavaScript environment: the fields of \<^verbatim>\<open>new Date()\<close> as
  its getters return them (\<open>now_month\<close> counts from 0), the two bytes of
  \<^verbatim>\<open>crypto.randomBytes(2)\<close>, and two functions the model does not compute. \<open>parseInt_exp\<close>
  is the value of \<^verbatim>\<open>parseInt\<close> on a number that JavaScript prints in exponent notation (the
  digits before the first \<^verbatim>\<open>.\<close> or \<^verbatim>\<open>e\<close> of the shortest decimal form of the double).
  \<open>nearest_double\<close> is the rounding of a natural number of \<open>2^53\<close> or more to the double
  that JavaScript keeps for it, \<open>None\<close> when that double is \<^verbatim>\<open>Infinity\<close>.
\<close>

record js_env =
  now_year :: nat
  now_month :: nat
  now_date :: nat
  now_hours :: nat
  now_minutes :: nat
  now_seconds :: nat
  rnd0 :: "8 word"
  rnd1 :: "8 word"
  parseInt_exp :: "rat \<Rightarrow> int"
  nearest_double :: "nat \<Rightarrow> nat option"

text \<open>
  \<^verbatim>\<open>parseInt(x)\<close> on a number converts it to a string first. Zero and the magnitudes from
  \<open>10^-6\<close> up to \<open>10^21\<close> are printed in plain decimal notation, of which \<^verbatim>\<open>parseInt\<close>
  reads the integer part: truncation towards zero.
\<close>

definition plain_decimal :: "rat \<Rightarrow> bool" where
  "plain_decimal x = (x = 0 \<or> (1 / 10 ^ 6 \<le> \<bar>x\<bar> \<and> \<bar>x\<bar> < 10 ^ 21))"

definition parseInt_num :: "js_env \<Rightarrow> rat \<Rightarrow> int" where
  "parseInt_num env x =
     (if plain_decimal x then (if 0 \<le> x then \<lfloor>x\<rfloor> else \<lceil>x\<rceil>) else parseInt_exp env x)"

subsection \<open>Strings\<close>

definition digit_char :: "nat \<Rightarrow> char" where
  "digit_char n = ''0123456789'' ! n"

text \<open>\<^verbatim>\<open>Number.prototype.toString()\<close> on a natural number: its decimal digits.\<close>

function toString_nat :: "nat \<Rightarrow> string" where
  "toString_nat n = (if n < 10 then [digit_char n]
                     else toString_nat (n div 10) @ [digit_char (n mod 10)])"
  by pat_completeness auto
termination
  by (relation "measure id") auto

declare toString_nat.simps [simp del]

text \<open>\<^verbatim>\<open>s.padStart(n, c)\<close> with a fill string of one character.\<close>

definition padStart :: "nat \<Rightarrow> char \<Rightarrow> string \<Rightarrow> string" where
  "padStart n c s = replicate (n - length s) c @ s"

text \<open>\<^verbatim>\<open>buf.toString("hex")\<close>: two lower-case digits for each byte.\<close>

definition hex_of_byte :: "8 word \<Rightarrow> string" where
  "hex_of_byte b = [''0123456789abcdef'' ! (unat b div 16), ''0123456789abcdef'' ! (unat b mod 16)]"

definition toString_hex :: "8 word list \<Rightarrow> string" where
  "toString_hex bs = concat (map hex_of_byte bs)"

text \<open>\<^verbatim>\<open>s.toUpperCase()\<close> on ASCII text.\<close>

definition upper_char :: "char \<Rightarrow> char" where
  "upper_char c =
     (case map_of (zip ''abcdefghijklmnopqrstuvwxyz'' ''ABCDEFGHIJKLMNOPQRSTUVWXYZ'') c of
        Some u \<Rightarrow> u | None \<Rightarrow> c)"

definition toUpperCase :: "string \<Rightarrow> string" where
  "toUpperCase s = map upper_char s"

section \<open>The invoice number generator\<close>

definition generateInvoiceNumber :: "js_env \<Rightarrow> string" where
  "generateInvoiceNumber env =
     (let dd = padStart 2 (CHR ''0'') (toString_nat (now_date env));
          mm = padStart 2 (CHR ''0'') (toString_nat (now_month env + 1));
          yyyy = toString_nat (now_year env);
          hh = padStart 2 (CHR ''0'') (toString_nat (now_hours env));
          mins = padStart 2 (CHR ''0'') (toString_nat (now_minutes env));
          sec = padStart 2 (CHR ''0'') (toString_nat (now_seconds env));
          dateTimePart = yyyy @ mm @ dd @ hh @ mins @ sec;
          randomPart = toUpperCase (toString_hex [rnd0 env, rnd1 env])
      in ''INV'' @ dateTimePart @ ''-'' @ randomPart)"


text \<open>
  The format in the words of the spec (section 4.2): a fixed prefix, the timestamp as year,
  month, day, hour, minute, second, each zero-padded to a fixed width, and the random bytes
  in upper-case hexadecimal. The source puts a hyphen between timestamp and suffix.
\<close>

definition dec2 :: "nat \<Rightarrow> string" where
  "dec2 n = [digit_char (n div 10), digit_char (n mod 10)]"

definition dec4 :: "nat \<Rightarrow> string" where
  "dec4 n = [digit_char (n div 1000), digit_char (n div 100 mod 10),
             digit_char (n div 10 mod 10), digit_char (n mod 10)]"

definition HEX2 :: "8 word \<Rightarrow> string" where
  "HEX2 b = [''0123456789ABCDEF'' ! (unat b div 16), ''0123456789ABCDEF'' ! (unat b mod 16)]"

definition invoice_format :: "js_env \<Rightarrow> string" where
  "invoice_format env =
     ''INV'' @ dec4 (now_year env) @ dec2 (now_month env + 1) @ dec2 (now_date env)
       @ dec2 (now_hours env) @ dec2 (now_minutes env) @ dec2 (now_seconds env)
       @ ''-'' @ HEX2 (rnd0 env) @ HEX2 (rnd1 env)"

definition decimal_digits :: "char set" where
  "decimal_digits = set ''0123456789''"

text \<open>Reading a suffix back: the value of an upper-case hexadecimal digit, and of a pair.\<close>

definition HEX_value :: "char \<Rightarrow> nat option" where
  "HEX_value c = map_of (zip ''0123456789ABCDEF'' [0, 1, 2, 3, 4, 5, 6, 7, 8, 9, 10, 11, 12, 13, 14, 15]) c"

fun unHEX2 :: "string \<Rightarrow> nat option" where
  "unHEX2 [a, b] =
     (case (HEX_value a, HEX_value b) of (Some x, Some y) \<Rightarrow> Some (16 * x + y) | _ \<Rightarrow> None)"
| "unHEX2 _ = None"

text \<open>The range of the getters of a JavaScript date, for a four-digit year.\<close>

definition date_fields_ok :: "js_env \<Rightarrow> bool" where
  "date_fields_ok env =
     (1000 \<le> now_year env \<and> now_year env < 10000 \<and> now_month env < 12 \<and>
      1 \<le> now_date env \<and> now_date env \<le> 31 \<and> now_hours env < 24 \<and>
      now_minutes env < 60 \<and> now_seconds env < 60)"

section \<open>Handlers as programs over the store\<close>

text \<open>
  What a handler sends back. The source answers with an HTTP status and a JSON body; each
  constructor stands for one \<^verbatim>\<open>res.status(..).json(..)\<close> of the three handlers:
  \<open>InvalidAmount\<close> is 400 with status "102", \<open>MissingParam\<close> 400 with 201, \<open>NoBalance\<close>
  404 with 206, \<open>ServiceNotFound\<close> 404 with 207, \<open>InsufficientFunds\<close> 400 with 208,
  \<open>HistoryNotFound\<close> 404 with 208, and \<open>ServerError\<close> the 500 of the \<^verbatim>\<open>catch\<close> blocks.
\<close>

record payment_data =
  p_invoice_number :: string
  p_service_code :: string
  p_service_name :: string
  p_transaction_type :: transaction_type
  p_total_amount :: int
  p_created_on :: nat

datatype response =
    InvalidAmount
  | TopupOk int
  | MissingParam
  | NoBalance
  | ServiceNotFound
  | InsufficientFunds
  | PaymentOk payment_data
  | HistoryNotFound
  | HistoryOk "history_view list"
  | ServerError

text \<open>
  A handler is a program that either answers or sends one statement and goes on with its
  result: one \<open>Query\<close> for each \<^verbatim>\<open>await pool.query(..)\<close>. Code that throws where the
  source would (reading \<^verbatim>\<open>rows[0]\<close> of an empty result) answers \<open>ServerError\<close>, as the
  \<^verbatim>\<open>catch\<close> block of every handler does.
\<close>

datatype prog = Done response | Query stmt "qres \<Rightarrow> prog"

subsection \<open>POST /topup\<close>

text \<open>The handler from the computation of \<^verbatim>\<open>newBalance\<close> on, for the amount \<open>a\<close>.\<close>

definition topup_write :: "js_env \<Rightarrow> nat \<Rightarrow> rat \<Rightarrow> int \<Rightarrow> prog" where
  "topup_write env userId a currentBalance =
     (let newBalance = parseInt_num env (of_int currentBalance) + parseInt_num env a in
      Query Begin (\<lambda>_.
      Query (UpdateBalanceByUser newBalance userId) (\<lambda>updateResult.
        let invNumber = generateInvoiceNumber env in
        case updateResult of
          BalanceRows (u # _) \<Rightarrow>
            Query (InsertHistory (balance_id u) invNumber a currentBalance newBalance TOPUP
                     ''Top Up Balance'') (\<lambda>_.
            Query Commit (\<lambda>_.
            Done (TopupOk newBalance)))
        | _ \<Rightarrow> Done ServerError)))"

text \<open>
  The validation lets only numbers through (\<open>JUndefined\<close> and \<open>JNull\<close> are falsy), so the
  rest of the handler works on the number \<open>a\<close>.
\<close>

definition topup :: "js_env \<Rightarrow> nat \<Rightarrow> jsval \<Rightarrow> prog" where
  "topup env userId top_up_amount =
     (if js_not top_up_amount \<or> js_isNaN top_up_amount \<or> js_le_zero top_up_amount
      then Done InvalidAmount
      else case top_up_amount of
        JNum a \<Rightarrow>
          Query (SelectBalanceValue userId) (\<lambda>userResult.
            case userResult of
              BalanceRows [] \<Rightarrow>
                Query (InsertBalance userId) (\<lambda>_. topup_write env userId a 0)
            | BalanceRows (b # _) \<Rightarrow> topup_write env userId a (balance_value b)
            | _ \<Rightarrow> Done ServerError)
      | _ \<Rightarrow> Done ServerError)"

subsection \<open>POST /transaction\<close>

text \<open>The handler from \<^verbatim>\<open>BEGIN\<close> on, for the balance row and the service row it has read.\<close>

definition transaction_write :: "js_env \<Rightarrow> string \<Rightarrow> balance_row \<Rightarrow> service_row \<Rightarrow> prog" where
  "transaction_write env code b sv =
     Query Begin (\<lambda>_.
     let newBalance = balance_value b - service_tariff sv in
     Query (UpdateBalanceById newBalance (balance_id b)) (\<lambda>_.
     let invNumber = generateInvoiceNumber env in
     Query (InsertHistory (balance_id b) invNumber (of_int (service_tariff sv))
              (balance_value b) newBalance PAYMENT (service_name sv)) (\<lambda>trx.
     Query Commit (\<lambda>_.
       case trx of
         HistoryRows (h # _) \<Rightarrow>
           Done (PaymentOk
             \<lparr> p_invoice_number = invNumber, p_service_code = code,
               p_service_name = service_name sv, p_transaction_type = PAYMENT,
               p_total_amount = service_tariff sv, p_created_on = created_date h \<rparr>)
       | _ \<Rightarrow> Done ServerError))))"

text \<open>
  The request field \<^verbatim>\<open>service_code\<close> is absent or a string; \<^verbatim>\<open>!service_code\<close> holds when
  it is absent or empty.
\<close>

definition transaction :: "js_env \<Rightarrow> nat \<Rightarrow> string option \<Rightarrow> prog" where
  "transaction env userId service_code_opt =
     (case service_code_opt of
        None \<Rightarrow> Done MissingParam
      | Some code \<Rightarrow>
          if code = [] then Done MissingParam
          else
            Query (SelectBalance userId) (\<lambda>balanceRes.
              case balanceRes of
                BalanceRows [] \<Rightarrow> Done NoBalance
              | BalanceRows (b # _) \<Rightarrow>
                  Query (SelectService code) (\<lambda>serviceRes.
                    case serviceRes of
                      ServiceRows [] \<Rightarrow> Done ServiceNotFound
                    | ServiceRows (sv # _) \<Rightarrow>
                        if balance_value b < service_tariff sv then Done InsufficientFunds
                        else transaction_write env code b sv
                    | _ \<Rightarrow> Done ServerError)
              | _ \<Rightarrow> Done ServerError))"

subsection \<open>GET /transaction/history\<close>

text \<open>
  \<^verbatim>\<open>parseInt(s)\<close> on a string: leading white space is skipped, then an optional sign, then
  \<^verbatim>\<open>0x\<close> switches to radix 16, then the longest run of digits is read; no digit gives
  \<^verbatim>\<open>NaN\<close> (\<open>None\<close>). Characters are bytes here. The result is a double: the value read
  is exact below \<open>2^53\<close> and rounded by \<open>nearest_double\<close> from there on. An infinity is
  \<open>None\<close> as well: like \<^verbatim>\<open>NaN\<close> it is not \<^verbatim>\<open>null\<close>, and the handler does nothing else
  with it than pass it to the query.
\<close>

definition is_ws :: "char \<Rightarrow> bool" where
  "is_ws c = (c \<in> set [CHR 0x09, CHR 0x0A, CHR 0x0B, CHR 0x0C, CHR 0x0D, CHR 0x20, CHR 0xA0])"

definition digit_value :: "char \<Rightarrow> nat option" where
  "digit_value c =
     map_of (zip ''0123456789abcdefABCDEF''
       [0, 1, 2, 3, 4, 5, 6, 7, 8, 9, 10, 11, 12, 13, 14, 15, 10, 11, 12, 13, 14, 15]) c"

definition is_digit_of :: "nat \<Rightarrow> char \<Rightarrow> bool" where
  "is_digit_of radix c = (case digit_value c of Some v \<Rightarrow> v < radix | None \<Rightarrow> False)"

definition digits_value :: "nat \<Rightarrow> string \<Rightarrow> nat" where
  "digits_value radix ds =
     foldl (\<lambda>acc c. case digit_value c of Some v \<Rightarrow> acc * radix + v | None \<Rightarrow> acc) 0 ds"

definition parseInt_str :: "js_env \<Rightarrow> string \<Rightarrow> int option" where
  "parseInt_str env inputString =
     (let S = dropWhile is_ws inputString;
          negative = (S \<noteq> [] \<and> hd S = CHR ''-'');
          S1 = (if S \<noteq> [] \<and> (hd S = CHR ''+'' \<or> hd S = CHR ''-'') then tl S else S);
          hex = (length S1 \<ge> 2 \<and> (take 2 S1 = ''0x'' \<or> take 2 S1 = ''0X''));
          S2 = (if hex then drop 2 S1 else S1);
          R = (if hex then 16 else 10);
          Z = takeWhile (is_digit_of R) S2;
          mathInt = digits_value R Z;
          number = (if mathInt < 2 ^ 53 then Some mathInt else nearest_double env mathInt)
      in if Z = [] then None
         else map_option (\<lambda>n. (if negative then - 1 else 1) * int n) number)"

text \<open>
  \<^verbatim>\<open>req.query.x ? parseInt(req.query.x) : null\<close> for a query parameter that is absent or a
  string: the outer \<open>None\<close> is \<^verbatim>\<open>null\<close>, the inner one a result of \<^verbatim>\<open>parseInt\<close> that is
  not a finite number.
\<close>

definition query_param :: "js_env \<Rightarrow> string option \<Rightarrow> int option option" where
  "query_param env q =
     (case q of None \<Rightarrow> None | Some s \<Rightarrow> if s = [] then None else Some (parseInt_str env s))"

definition history :: "js_env \<Rightarrow> nat \<Rightarrow> string option \<Rightarrow> string option \<Rightarrow> prog" where
  "history env userId q_limit q_offset =
     (let offs = query_param env q_offset;
          lim = query_param env q_limit;
          paging = (case lim of
                      Some l \<Rightarrow> (case offs of Some off \<Rightarrow> Some (l, off) | None \<Rightarrow> None)
                    | None \<Rightarrow> None)
      in Query (SelectHistory userId paging) (\<lambda>result.
           case result of
             HistoryViews rows \<Rightarrow>
               if rows = [] then Done HistoryNotFound else Done (HistoryOk rows)
           | _ \<Rightarrow> Done ServerError))"

section \<open>Running handlers\<close>

text \<open>
  \<open>step\<close> runs a program up to its next \<^verbatim>\<open>await\<close>: it sends one statement. A statement
  that fails throws, and the \<^verbatim>\<open>catch\<close> block of the handler logs the error and answers
  \<open>ServerError\<close>; the block sends no statement of its own, so no \<^verbatim>\<open>ROLLBACK\<close> either.
\<close>

fun step :: "nat \<Rightarrow> bool \<Rightarrow> prog \<Rightarrow> session \<Rightarrow> prog \<times> session" where
  "step now fault (Done r) s = (Done r, s)"
| "step now fault (Query q k) s =
     (case exec now fault q s of
        (QError, s') \<Rightarrow> (Done ServerError, s')
      | (r, s') \<Rightarrow> (k r, s'))"

text \<open>
  \<open>run p now fails n s\<close> runs a handler to its answer on session \<open>s\<close>, where \<open>fails i\<close> says
  that the \<open>i\<close>-th statement sent (counted from \<open>n\<close>) fails for an outside reason. It
  returns the answer, the session afterwards and the statements sent.
\<close>

primrec run :: "prog \<Rightarrow> nat \<Rightarrow> (nat \<Rightarrow> bool) \<Rightarrow> nat \<Rightarrow> session \<Rightarrow> response \<times> session \<times> stmt list" where
  "run (Done r) = (\<lambda>now fails n s. (r, s, []))"
| "run (Query q k) = (\<lambda>now fails n s.
     (case exec now (fails n) q s of
        (QError, s') \<Rightarrow> (ServerError, s', [q])
      | (r, s') \<Rightarrow>
          (case run (k r) now fails (Suc n) s' of (resp, s'', sent) \<Rightarrow> (resp, s'', q # sent))))"

definition no_fault :: "nat \<Rightarrow> bool" where
  "no_fault i = False"

text \<open>
  The statements a handler sends when the store gives the answers \<open>answers\<close>, one for
  each statement, whatever else goes on in the store between them. A statement that fails
  is the last one: the handler goes to its \<^verbatim>\<open>catch\<close> block.
\<close>

primrec sent_on :: "prog \<Rightarrow> qres list \<Rightarrow> stmt list" where
  "sent_on (Done r) = (\<lambda>answers. [])"
| "sent_on (Query q k) = (\<lambda>answers.
     case answers of
       [] \<Rightarrow> [q]
     | r # rest \<Rightarrow> if r = QError then [q] else q # sent_on (k r) rest)"

text \<open>
  Two requests in flight in one Node process: at every \<^verbatim>\<open>await\<close> the event loop may go on
  with either handler. The schedule says which handler sends the next statement
  (\<open>True\<close> for the first).
\<close>

primrec interleave :: "bool list \<Rightarrow> nat \<Rightarrow> prog \<Rightarrow> prog \<Rightarrow> session \<Rightarrow> prog \<times> prog \<times> session" where
  "interleave [] now p1 p2 s = (p1, p2, s)"
| "interleave (c # cs) now p1 p2 s =
     (if c then (case step now False p1 s of (p1', s') \<Rightarrow> interleave cs now p1' p2 s')
      else (case step now False p2 s of (p2', s') \<Rightarrow> interleave cs now p1 p2' s'))"

subsection \<open>Requests that change the store\<close>

text \<open>
  The two routes that change the store, \<^verbatim>\<open>app.post("/topup", ..)\<close> and
  \<^verbatim>\<open>app.post("/transaction", ..)\<close>, for the user the token names.
\<close>

datatype request = TopUp jsval | Payment "string option"

fun handle :: "js_env \<Rightarrow> nat \<Rightarrow> request \<Rightarrow> prog" where
  "handle env userId (TopUp top_up_amount) = topup env userId top_up_amount"
| "handle env userId (Payment service_code_opt) = transaction env userId service_code_opt"

fun is_success :: "response \<Rightarrow> bool" where
  "is_success (TopupOk v) = True"
| "is_success (PaymentOk pd) = True"
| "is_success _ = False"

section \<open>The tables after an operation\<close>

text \<open>The tables after the balance row of a first top-up has been inserted.\<close>

definition balance_created :: "db \<Rightarrow> nat \<Rightarrow> db" where
  "balance_created d uid =
     d\<lparr>tbl_balance := tbl_balance d @
         [\<lparr>balance_id = fresh_balance_id d, user_id = uid, balance_value = 0\<rparr>]\<rparr>"

text \<open>
  The tables after a committed top-up of the whole amount \<open>a\<close> on the balance row with
  identifier \<open>bid\<close> and value \<open>cur\<close>, and after a committed payment of service \<open>sv\<close> from
  balance row \<open>b\<close>.
\<close>

definition topup_row :: "nat \<Rightarrow> js_env \<Rightarrow> rat \<Rightarrow> int \<Rightarrow> nat \<Rightarrow> history_row" where
  "topup_row now env a cur bid =
     \<lparr> h_balance_id = bid, invoice_number = generateInvoiceNumber env, amount = \<lfloor>a\<rfloor>,
       balance_before = cur,
       balance_after = parseInt_num env (of_int cur) + parseInt_num env a,
       trx_type = TOPUP, description = ''Top Up Balance'', created_date = now \<rparr>"

definition after_topup :: "nat \<Rightarrow> js_env \<Rightarrow> nat \<Rightarrow> rat \<Rightarrow> int \<Rightarrow> nat \<Rightarrow> db \<Rightarrow> db" where
  "after_topup now env uid a cur bid d =
     d\<lparr> tbl_balance :=
          map (\<lambda>x. if user_id x = uid
                    then x\<lparr>balance_value := parseInt_num env (of_int cur) + parseInt_num env a\<rparr>
                    else x) (tbl_balance d),
        tbl_trx_history := tbl_trx_history d @ [topup_row now env a cur bid] \<rparr>"

definition payment_row :: "nat \<Rightarrow> js_env \<Rightarrow> balance_row \<Rightarrow> service_row \<Rightarrow> history_row" where
  "payment_row now env b sv =
     \<lparr> h_balance_id = balance_id b, invoice_number = generateInvoiceNumber env,
       amount = service_tariff sv, balance_before = balance_value b,
       balance_after = balance_value b - service_tariff sv, trx_type = PAYMENT,
       description = service_name sv, created_date = now \<rparr>"

definition after_payment :: "nat \<Rightarrow> js_env \<Rightarrow> balance_row \<Rightarrow> service_row \<Rightarrow> db \<Rightarrow> db" where
  "after_payment now env b sv d =
     d\<lparr> tbl_balance :=
          map (\<lambda>x. if balance_id x = balance_id b
                    then x\<lparr>balance_value := balance_value b - service_tariff sv\<rparr> else x)
            (tbl_balance d),
        tbl_trx_history := tbl_trx_history d @ [payment_row now env b sv] \<rparr>"

text \<open>The statements the two handlers send from \<^verbatim>\<open>BEGIN\<close> on.\<close>

definition topup_sent :: "js_env \<Rightarrow> nat \<Rightarrow> rat \<Rightarrow> int \<Rightarrow> nat \<Rightarrow> stmt list" where
  "topup_sent env uid a cur bid =
     [Begin, UpdateBalanceByUser (parseInt_num env (of_int cur) + parseInt_num env a) uid,
      InsertHistory bid (generateInvoiceNumber env) a cur
        (parseInt_num env (of_int cur) + parseInt_num env a) TOPUP ''Top Up Balance'',
      Commit]"

definition payment_sent :: "js_env \<Rightarrow> balance_row \<Rightarrow> service_row \<Rightarrow> stmt list" where
  "payment_sent env b sv =
     [Begin, UpdateBalanceById (balance_value b - service_tariff sv) (balance_id b),
      InsertHistory (balance_id b) (generateInvoiceNumber env) (of_int (service_tariff sv))
        (balance_value b) (balance_value b - service_tariff sv) PAYMENT (service_name sv),
      Commit]"

text \<open>
  The listing of a user's history, newest first, in the order the server gives it when it
  answers the history query with the arguments \<open>paging\<close>; and the full listing, which is
  what the query returns without \<^verbatim>\<open>LIMIT\<close> and \<^verbatim>\<open>OFFSET\<close>.
\<close>

definition listing :: "db \<Rightarrow> nat \<Rightarrow> (int option \<times> int option) option \<Rightarrow> history_view list" where
  "listing d uid paging =
     map view_of (order_by_created_desc (tie_rank d uid paging) (history_join d uid))"

definition full_listing :: "db \<Rightarrow> nat \<Rightarrow> history_view list" where
  "full_listing d uid = listing d uid None"

text \<open>An amount that is not a positive number: absent, \<^verbatim>\<open>null\<close>, zero or negative.\<close>

fun not_positive :: "jsval \<Rightarrow> bool" where
  "not_positive (JNum x) = (x \<le> 0)"
| "not_positive _ = True"

section \<open>A sample store\<close>

text \<open>
  User 7 has topped up twice and holds 5000; user 8 has no balance row. The catalogue has
  a service of tariff 3000 and one of tariff 10000.
\<close>

definition ex_env :: js_env where
  "ex_env = \<lparr> now_year = 2025, now_month = 10, now_date = 5, now_hours = 15,
              now_minutes = 34, now_seconds = 28, rnd0 = 0xA4, rnd1 = 0xF2,
              parseInt_exp = (\<lambda>x. 0), nearest_double = (\<lambda>n. Some n) \<rparr>"

definition ex_env2 :: js_env where
  "ex_env2 = ex_env\<lparr>now_seconds := 29, rnd0 := 0x5B, rnd1 := 0x07\<rparr>"

definition ex_db :: db where
  "ex_db =
     \<lparr> tbl_balance = [\<lparr>balance_id = 1, user_id = 7, balance_value = 5000\<rparr>],
       tbl_trx_history =
         [\<lparr>h_balance_id = 1, invoice_number = ''INV20251101080000-0001'', amount = 2000,
           balance_before = 0, balance_after = 2000, trx_type = TOPUP,
           description = ''Top Up Balance'', created_date = 50\<rparr>,
          \<lparr>h_balance_id = 1, invoice_number = ''INV20251102090000-0002'', amount = 3000,
           balance_before = 2000, balance_after = 5000, trx_type = TOPUP,
           description = ''Top Up Balance'', created_date = 60\<rparr>],
       tbl_service =
         [\<lparr>service_code = ''PLN'', service_name = ''Listrik'', service_tariff = 3000\<rparr>,
          \<lparr>service_code = ''TV'', service_name = ''TV Berlangganan'', service_tariff = 10000\<rparr>],
       tbl_user = [7, 8], tie_rank = (\<lambda>uid paging h. 0) \<rparr>"

definition ex_session :: session where
  "ex_session = \<lparr> committed = ex_db, txn = Idle \<rparr>"

section \<open>The format of invoice numbers\<close>

lemma toString_nat_lt10: "n < 10 \<Longrightarrow> toString_nat n = [digit_char n]"
  by (subst toString_nat.simps) simp

lemma toString_nat_lt100:
  "10 \<le> n \<Longrightarrow> n < 100 \<Longrightarrow> toString_nat n = [digit_char (n div 10), digit_char (n mod 10)]"
  by (subst toString_nat.simps) (simp add: toString_nat_lt10 less_mult_imp_div_less)

lemma toString_nat_lt1000:
  "100 \<le> n \<Longrightarrow> n < 1000 \<Longrightarrow>
   toString_nat n = [digit_char (n div 100), digit_char (n div 10 mod 10), digit_char (n mod 10)]"
  by (subst toString_nat.simps)
     (simp add: toString_nat_lt100 less_mult_imp_div_less div_mult2_eq [symmetric])

lemma toString_nat_dec4:
  "1000 \<le> n \<Longrightarrow> n < 10000 \<Longrightarrow> toString_nat n = dec4 n"
  by (subst toString_nat.simps)
     (simp add: toString_nat_lt1000 less_mult_imp_div_less div_mult2_eq [symmetric] dec4_def)

lemma padStart_dec2: "n < 100 \<Longrightarrow> padStart 2 (CHR ''0'') (toString_nat n) = dec2 n"
proof (cases "n < 10")
  case True
  then show ?thesis
    by (simp add: toString_nat_lt10 padStart_def dec2_def digit_char_def)
next
  case False
  assume "n < 100"
  with False show ?thesis
    by (simp add: toString_nat_lt100 padStart_def dec2_def)
qed

lemma nibble_cases:
  "i < 16 \<Longrightarrow> i \<in> set [0, 1, 2, 3, 4, 5, 6, 7, 8, 9, 10, 11, 12, 13, 14, 15::nat]"
  by simp arith

lemma upper_hex_all:
  "list_all (\<lambda>i. upper_char (''0123456789abcdef'' ! i) = ''0123456789ABCDEF'' ! i)
     [0, 1, 2, 3, 4, 5, 6, 7, 8, 9, 10, 11, 12, 13, 14, 15::nat]"
  by (simp add: upper_char_def)

lemma upper_hex_digit:
  "i < 16 \<Longrightarrow> upper_char (''0123456789abcdef'' ! i) = ''0123456789ABCDEF'' ! i"
  using upper_hex_all nibble_cases [of i] unfolding list_all_iff by blast

lemma HEX_value_all:
  "list_all (\<lambda>i. HEX_value (''0123456789ABCDEF'' ! i) = Some i)
     [0, 1, 2, 3, 4, 5, 6, 7, 8, 9, 10, 11, 12, 13, 14, 15::nat]"
  by (simp add: HEX_value_def)

lemma HEX_value_digit: "i < 16 \<Longrightarrow> HEX_value (''0123456789ABCDEF'' ! i) = Some i"
  using HEX_value_all nibble_cases [of i] unfolding list_all_iff by blast

lemma digit_char_in: "i < 10 \<Longrightarrow> digit_char i \<in> decimal_digits"
  unfolding digit_char_def decimal_digits_def by (rule nth_mem) simp

lemma byte_hi: "unat (b :: 8 word) div 16 < 16"
proof -
  have "unat b < 256" using unsigned_less [of b, where 'a = nat] by simp
  then show ?thesis by (simp add: less_mult_imp_div_less)
qed

lemma toUpperCase_hex_of_byte: "toUpperCase (hex_of_byte b) = HEX2 b"
  by (simp add: toUpperCase_def hex_of_byte_def HEX2_def upper_hex_digit byte_hi)

lemma unHEX2_HEX2: "unHEX2 (HEX2 b) = Some (unat b)"
  by (simp add: HEX2_def HEX_value_digit byte_hi)

lemma toUpperCase_append: "toUpperCase (xs @ ys) = toUpperCase xs @ toUpperCase ys"
  by (simp add: toUpperCase_def)

lemma generate_is_format:
  "date_fields_ok env \<Longrightarrow> generateInvoiceNumber env = invoice_format env"
  by (simp add: date_fields_ok_def generateInvoiceNumber_def invoice_format_def Let_def
      padStart_dec2 toString_nat_dec4 toString_hex_def toUpperCase_hex_of_byte
      toUpperCase_append)

lemma invoice_format_shape:
  assumes "date_fields_ok env"
  shows "length (invoice_format env) = 22"
    and "take 3 (invoice_format env) = ''INV''"
    and "set (take 14 (drop 3 (invoice_format env))) \<subseteq> decimal_digits"
    and "invoice_format env ! 17 = CHR ''-''"
    and "unHEX2 (take 2 (drop 18 (invoice_format env))) = Some (unat (rnd0 env))"
    and "unHEX2 (drop 20 (invoice_format env)) = Some (unat (rnd1 env))"
proof -
  show "length (invoice_format env) = 22"
    by (simp add: invoice_format_def dec2_def dec4_def HEX2_def)
  show "take 3 (invoice_format env) = ''INV''"
    by (simp add: invoice_format_def)
  have d: "\<And>n. n < 100 \<Longrightarrow> set (dec2 n) \<subseteq> decimal_digits"
    by (simp add: dec2_def less_mult_imp_div_less digit_char_in)
  have y: "set (dec4 (now_year env)) \<subseteq> decimal_digits"
    using assms
    by (simp add: dec4_def date_fields_ok_def less_mult_imp_div_less digit_char_in)
  have "take 14 (drop 3 (invoice_format env)) =
        dec4 (now_year env) @ dec2 (now_month env + 1) @ dec2 (now_date env)
          @ dec2 (now_hours env) @ dec2 (now_minutes env) @ dec2 (now_seconds env)"
    by (simp add: invoice_format_def dec2_def dec4_def)
  then show "set (take 14 (drop 3 (invoice_format env))) \<subseteq> decimal_digits"
    using assms d y by (simp add: date_fields_ok_def)
  show "invoice_format env ! 17 = CHR ''-''"
    by (simp add: invoice_format_def dec2_def dec4_def)
  have "take 2 (drop 18 (invoice_format env)) = HEX2 (rnd0 env)"
    by (simp add: invoice_format_def dec2_def dec4_def HEX2_def)
  then show "unHEX2 (take 2 (drop 18 (invoice_format env))) = Some (unat (rnd0 env))"
    by (simp only: unHEX2_HEX2)
  have "drop 20 (invoice_format env) = HEX2 (rnd1 env)"
    by (simp add: invoice_format_def dec2_def dec4_def HEX2_def)
  then show "unHEX2 (drop 20 (invoice_format env)) = Some (unat (rnd1 env))"
    by (simp only: unHEX2_HEX2)
qed

text \<open>
  Claim C9. Every string the invoice number generator returns is a fixed prefix (\<open>INV\<close>),
  then the timestamp at second resolution, zero-padded, in the order year, month, day, hour,
  minute, second (fourteen decimal digits for a four-digit year), then, after a hyphen, the
  two random bytes in upper-case hexadecimal: the suffix reads back to exactly the sixteen
  bits drawn.
\<close>

theorem generateInvoiceNumber_format:
  assumes "date_fields_ok env"
  shows "generateInvoiceNumber env = invoice_format env \<and>
         length (generateInvoiceNumber env) = 22 \<and>
         take 3 (generateInvoiceNumber env) = ''INV'' \<and>
         set (take 14 (drop 3 (generateInvoiceNumber env))) \<subseteq> decimal_digits \<and>
         generateInvoiceNumber env ! 17 = CHR ''-'' \<and>
         unHEX2 (take 2 (drop 18 (generateInvoiceNumber env))) = Some (unat (rnd0 env)) \<and>
         unHEX2 (drop 20 (generateInvoiceNumber env)) = Some (unat (rnd1 env))"
  using invoice_format_shape [OF assms] generate_is_format [OF assms] by simp

lemma ex_env_ok: "date_fields_ok ex_env"
  by (simp add: date_fields_ok_def ex_env_def)

text \<open>On 5 November 2025 at 15:34:28, with the random bytes A4 and F2.\<close>

theorem generateInvoiceNumber_format_witness:
  "date_fields_ok ex_env \<and> generateInvoiceNumber ex_env = ''INV20251105153428-A4F2'' \<and>
   invoice_format ex_env = ''INV20251105153428-A4F2''"
proof -
  have f: "invoice_format ex_env = ''INV20251105153428-A4F2''"
    by (simp add: invoice_format_def ex_env_def dec2_def dec4_def HEX2_def digit_char_def)
  from generateInvoiceNumber_format [OF ex_env_ok] f ex_env_ok show ?thesis by simp
qed

section \<open>Statements on a session with no open transaction\<close>

lemma balance_of_SomeD:
  "balance_of d uid = Some b \<Longrightarrow> \<exists>bs. filter (\<lambda>x. user_id x = uid) (tbl_balance d) = b # bs"
  by (auto simp: balance_of_def split: list.splits)

lemma balance_of_NoneD:
  "balance_of d uid = None \<Longrightarrow> filter (\<lambda>x. user_id x = uid) (tbl_balance d) = []"
  by (auto simp: balance_of_def split: list.splits)

lemma service_of_SomeD:
  "service_of d code = Some sv \<Longrightarrow>
   \<exists>svs. filter (\<lambda>x. service_code x = code) (tbl_service d) = sv # svs"
  by (auto simp: service_of_def split: list.splits)

lemma service_of_NoneD:
  "service_of d code = None \<Longrightarrow> filter (\<lambda>x. service_code x = code) (tbl_service d) = []"
  by (auto simp: service_of_def split: list.splits)

lemma session_txn_Idle: "txn s = Idle \<Longrightarrow> s\<lparr>txn := Idle\<rparr> = s"
  by (cases s) simp

lemma exec_select_balance:
  "txn s = Idle \<Longrightarrow>
   exec now False (SelectBalance uid) s =
     (BalanceRows (filter (\<lambda>b. user_id b = uid) (tbl_balance (committed s))), s)"
  by (simp add: exec_def)

lemma exec_select_service:
  "txn s = Idle \<Longrightarrow>
   exec now False (SelectService code) s =
     (ServiceRows (filter (\<lambda>sv. service_code sv = code) (tbl_service (committed s))), s)"
  by (simp add: exec_def)

lemma exec_select_balance_value:
  "txn s = Idle \<Longrightarrow>
   exec now False (SelectBalanceValue uid) s =
     (BalanceRows (filter (\<lambda>b. user_id b = uid) (tbl_balance (committed s))), s)"
  by (simp add: exec_def)

lemma exec_insert_balance:
  "txn s = Idle \<Longrightarrow>
   exec now False (InsertBalance uid) s =
     (CommandOk, s\<lparr>committed := balance_created (committed s) uid\<rparr>)"
  by (simp add: exec_def balance_created_def)

lemma exec_fault: "txn s = Idle \<Longrightarrow> exec now True q s = (QError, s)"
  by (simp add: exec_def session_txn_Idle)

lemma filter_update_by_user:
  "filter (\<lambda>b. user_id b = uid)
     (map (\<lambda>b. if user_id b = uid then b\<lparr>balance_value := v\<rparr> else b) xs) =
   map (\<lambda>b. b\<lparr>balance_value := v\<rparr>) (filter (\<lambda>b. user_id b = uid) xs)"
  by (induction xs) auto

lemma filter_update_by_id:
  "filter (\<lambda>b. user_id b = uid)
     (map (\<lambda>b. if balance_id b = bid then b\<lparr>balance_value := v\<rparr> else b) xs) =
   map (\<lambda>b. if balance_id b = bid then b\<lparr>balance_value := v\<rparr> else b)
     (filter (\<lambda>b. user_id b = uid) xs)"
  by (induction xs) auto

lemma filter_balance_created:
  "filter (\<lambda>x. user_id x = uid) (tbl_balance d) = [] \<Longrightarrow>
   filter (\<lambda>x. user_id x = uid) (tbl_balance (balance_created d uid)) =
     [\<lparr>balance_id = fresh_balance_id d, user_id = uid, balance_value = 0\<rparr>]"
  by (simp add: balance_created_def)

lemma is_whole_of_int: "is_whole (of_int i)"
  by (simp add: is_whole_def)

lemma balance_of_after_payment:
  assumes "balance_of d uid = Some b"
  shows "balance_of (after_payment now env b sv d) uid =
           Some (b\<lparr>balance_value := balance_value b - service_tariff sv\<rparr>)"
proof -
  obtain bs where "filter (\<lambda>x. user_id x = uid) (tbl_balance d) = b # bs"
    using balance_of_SomeD [OF assms] by blast
  then show ?thesis
    by (simp add: balance_of_def after_payment_def filter_update_by_id)
qed

lemma balance_of_after_topup:
  assumes "balance_of d uid = Some b"
  shows "balance_of (after_topup now env uid a cur bid d) uid =
           Some (b\<lparr>balance_value := parseInt_num env (of_int cur) + parseInt_num env a\<rparr>)"
proof -
  obtain bs where "filter (\<lambda>x. user_id x = uid) (tbl_balance d) = b # bs"
    using balance_of_SomeD [OF assms] by blast
  then show ?thesis
    by (simp add: balance_of_def after_topup_def filter_update_by_user)
qed

lemma balance_of_balance_created:
  assumes "balance_of d uid = None"
  shows "balance_of (balance_created d uid) uid =
           Some \<lparr>balance_id = fresh_balance_id d, user_id = uid, balance_value = 0\<rparr>"
  using filter_balance_created [OF balance_of_NoneD [OF assms]]
  by (simp add: balance_of_def)



section \<open>What the handlers do, statement by statement\<close>

lemma run_transaction_write:
  assumes "txn s = Idle"
  shows "run (transaction_write env code b sv) now fails n s =
     (if fails n then (ServerError, s, take 1 (payment_sent env b sv))
      else if fails (Suc n) then (ServerError, s, take 2 (payment_sent env b sv))
      else if fails (Suc (Suc n)) then (ServerError, s, take 3 (payment_sent env b sv))
      else if fails (Suc (Suc (Suc n))) then (ServerError, s, payment_sent env b sv)
      else
        (PaymentOk \<lparr> p_invoice_number = generateInvoiceNumber env, p_service_code = code,
                     p_service_name = service_name sv, p_transaction_type = PAYMENT,
                     p_total_amount = service_tariff sv, p_created_on = now \<rparr>,
         \<lparr>committed = after_payment now env b sv (committed s), txn = Idle\<rparr>,
         payment_sent env b sv))"
  using assms
  by (simp add: transaction_write_def exec_def Let_def session_txn_Idle is_whole_of_int
      after_payment_def payment_row_def payment_sent_def)

lemma run_transaction_None: "run (transaction env uid None) now fails n s = (MissingParam, s, [])"
  by (simp add: transaction_def)

lemma run_transaction:
  assumes "txn s = Idle"
  shows "run (transaction env uid (Some code)) now fails 0 s =
     (if code = [] then (MissingParam, s, [])
      else if fails 0 then (ServerError, s, [SelectBalance uid])
      else case balance_of (committed s) uid of
        None \<Rightarrow> (NoBalance, s, [SelectBalance uid])
      | Some b \<Rightarrow>
          if fails 1 then (ServerError, s, [SelectBalance uid, SelectService code])
          else (case service_of (committed s) code of
            None \<Rightarrow> (ServiceNotFound, s, [SelectBalance uid, SelectService code])
          | Some sv \<Rightarrow>
              if balance_value b < service_tariff sv
              then (InsufficientFunds, s, [SelectBalance uid, SelectService code])
              else (case run (transaction_write env code b sv) now fails 2 s of
                      (r, s', l) \<Rightarrow> (r, s', SelectBalance uid # SelectService code # l))))"
proof (cases "fails 0")
  case True
  with assms show ?thesis by (simp add: transaction_def exec_fault)
next
  case f0: False
  show ?thesis
  proof (cases "balance_of (committed s) uid")
    case None
    with assms f0 balance_of_NoneD [OF None] show ?thesis
      by (simp add: transaction_def exec_select_balance)
  next
    case (Some b)
    then obtain bs where b: "filter (\<lambda>x. user_id x = uid) (tbl_balance (committed s)) = b # bs"
      using balance_of_SomeD by blast
    show ?thesis
    proof (cases "fails 1")
      case True
      with assms f0 Some b show ?thesis
        by (simp add: transaction_def exec_select_balance exec_fault)
    next
      case f1: False
      show ?thesis
      proof (cases "service_of (committed s) code")
        case None
        with assms f0 f1 Some b service_of_NoneD [OF None] show ?thesis
          by (simp add: transaction_def exec_select_balance exec_select_service)
      next
        case sv: (Some sv)
        then obtain svs where
          "filter (\<lambda>x. service_code x = code) (tbl_service (committed s)) = sv # svs"
          using service_of_SomeD by blast
        with assms f0 f1 Some b sv show ?thesis
          by (simp add: transaction_def exec_select_balance exec_select_service numeral_2_eq_2
              split: prod.splits)
      qed
    qed
  qed
qed

lemma run_topup_write:
  assumes "txn s = Idle"
    and "filter (\<lambda>x. user_id x = uid) (tbl_balance (committed s)) = b # bs"
  shows "run (topup_write env uid a cur) now fails n s =
     (if fails n then (ServerError, s, take 1 (topup_sent env uid a cur (balance_id b)))
      else if fails (Suc n) then (ServerError, s, take 2 (topup_sent env uid a cur (balance_id b)))
      else if fails (Suc (Suc n)) \<or> \<not> is_whole a
        then (ServerError, s, take 3 (topup_sent env uid a cur (balance_id b)))
      else if fails (Suc (Suc (Suc n)))
        then (ServerError, s, topup_sent env uid a cur (balance_id b))
      else
        (TopupOk (parseInt_num env (of_int cur) + parseInt_num env a),
         \<lparr>committed = after_topup now env uid a cur (balance_id b) (committed s), txn = Idle\<rparr>,
         topup_sent env uid a cur (balance_id b)))"
  using assms
  by (simp add: topup_write_def exec_def Let_def session_txn_Idle filter_update_by_user
      after_topup_def topup_row_def topup_sent_def)

lemma run_topup_write_created:
  assumes "txn s = Idle" and "balance_of (committed s) uid = None"
  shows "run (topup_write env uid a 0) now fails n
           (s\<lparr>committed := balance_created (committed s) uid\<rparr>) =
     (if fails n then
        (ServerError, s\<lparr>committed := balance_created (committed s) uid\<rparr>,
         take 1 (topup_sent env uid a 0 (fresh_balance_id (committed s))))
      else if fails (Suc n) then
        (ServerError, s\<lparr>committed := balance_created (committed s) uid\<rparr>,
         take 2 (topup_sent env uid a 0 (fresh_balance_id (committed s))))
      else if fails (Suc (Suc n)) \<or> \<not> is_whole a then
        (ServerError, s\<lparr>committed := balance_created (committed s) uid\<rparr>,
         take 3 (topup_sent env uid a 0 (fresh_balance_id (committed s))))
      else if fails (Suc (Suc (Suc n))) then
        (ServerError, s\<lparr>committed := balance_created (committed s) uid\<rparr>,
         topup_sent env uid a 0 (fresh_balance_id (committed s)))
      else
        (TopupOk (parseInt_num env (of_int 0) + parseInt_num env a),
         \<lparr>committed = after_topup now env uid a 0 (fresh_balance_id (committed s))
                        (balance_created (committed s) uid), txn = Idle\<rparr>,
         topup_sent env uid a 0 (fresh_balance_id (committed s))))"
proof -
  let ?s1 = "s\<lparr>committed := balance_created (committed s) uid\<rparr>"
  have t: "txn ?s1 = Idle" using assms(1) by simp
  have f: "filter (\<lambda>x. user_id x = uid) (tbl_balance (committed ?s1)) =
             \<lparr>balance_id = fresh_balance_id (committed s), user_id = uid, balance_value = 0\<rparr> # []"
    using filter_balance_created [OF balance_of_NoneD [OF assms(2)]] by simp
  show ?thesis
    using run_topup_write [OF t f, of env a 0 now fails n] by simp
qed

lemma run_topup_invalid:
  "js_not v \<or> js_isNaN v \<or> js_le_zero v \<Longrightarrow> run (topup env uid v) now fails n s = (InvalidAmount, s, [])"
  by (simp add: topup_def)

lemma run_topup:
  assumes "txn s = Idle" and "0 < a"
  shows "run (topup env uid (JNum a)) now fails 0 s =
     (if fails 0 then (ServerError, s, [SelectBalanceValue uid])
      else case balance_of (committed s) uid of
        Some b \<Rightarrow>
          (case run (topup_write env uid a (balance_value b)) now fails 1 s of
             (r, s', l) \<Rightarrow> (r, s', SelectBalanceValue uid # l))
      | None \<Rightarrow>
          if fails 1 then (ServerError, s, [SelectBalanceValue uid, InsertBalance uid])
          else (case run (topup_write env uid a 0) now fails 2
                       (s\<lparr>committed := balance_created (committed s) uid\<rparr>) of
                  (r, s', l) \<Rightarrow> (r, s', SelectBalanceValue uid # InsertBalance uid # l)))"
proof (cases "fails 0")
  case True
  with assms show ?thesis by (simp add: topup_def exec_fault)
next
  case f0: False
  show ?thesis
  proof (cases "balance_of (committed s) uid")
    case None
    with assms f0 balance_of_NoneD [OF None] show ?thesis
      by (simp add: topup_def exec_select_balance_value exec_insert_balance exec_fault
          numeral_2_eq_2 split: prod.splits)
  next
    case (Some b)
    then obtain bs where b: "filter (\<lambda>x. user_id x = uid) (tbl_balance (committed s)) = b # bs"
      using balance_of_SomeD by blast
    with assms f0 Some show ?thesis
      by (simp add: topup_def exec_select_balance_value split: prod.splits)
  qed
qed

lemma not_positive_iff: "not_positive v \<longleftrightarrow> js_not v \<or> js_isNaN v \<or> js_le_zero v"
  by (cases v) auto

lemma positive_cases:
  assumes "\<not> not_positive v"
  obtains a where "v = JNum a" and "0 < a"
  using assms by (cases v) auto

lemma payment_succeeds:
  assumes "txn s = Idle" and "code \<noteq> []"
    and "balance_of (committed s) uid = Some b"
    and "service_of (committed s) code = Some sv"
    and "service_tariff sv \<le> balance_value b"
    and "\<And>i. \<not> fails i"
  shows "run (transaction env uid (Some code)) now fails 0 s =
     (PaymentOk \<lparr> p_invoice_number = generateInvoiceNumber env, p_service_code = code,
                  p_service_name = service_name sv, p_transaction_type = PAYMENT,
                  p_total_amount = service_tariff sv, p_created_on = now \<rparr>,
      \<lparr>committed = after_payment now env b sv (committed s), txn = Idle\<rparr>,
      SelectBalance uid # SelectService code # payment_sent env b sv)"
  using assms by (simp add: run_transaction run_transaction_write)

lemma payment_ok_cases:
  assumes "txn s = Idle"
    and "run (transaction env uid (Some code)) now fails 0 s = (resp, s', sent)"
    and "is_success resp"
  shows "\<exists>b sv. balance_of (committed s) uid = Some b \<and>
           service_of (committed s) code = Some sv \<and>
           s' = \<lparr>committed = after_payment now env b sv (committed s), txn = Idle\<rparr>"
proof (cases "balance_of (committed s) uid")
  case None
  with assms show ?thesis
    by (simp add: run_transaction split: if_splits)
next
  case b: (Some b)
  show ?thesis
  proof (cases "service_of (committed s) code")
    case None
    with b assms show ?thesis
      by (simp add: run_transaction split: if_splits)
  next
    case (Some sv)
    with b assms show ?thesis
      by (simp add: run_transaction run_transaction_write split: if_splits)
  qed
qed

lemma payment_ok_funds:
  assumes "txn s = Idle"
    and "run (transaction env uid (Some code)) now fails 0 s = (resp, s', sent)"
    and "is_success resp"
    and "balance_of (committed s) uid = Some b"
    and "service_of (committed s) code = Some sv"
  shows "service_tariff sv \<le> balance_value b"
  using assms(2,3,4,5)
  by (simp add: run_transaction [OF assms(1)] split: if_splits)

lemma topup_ok_existing:
  assumes "txn s = Idle" and "0 < a"
    and "balance_of (committed s) uid = Some b"
    and "run (topup env uid (JNum a)) now fails 0 s = (resp, s', sent)"
    and "is_success resp"
  shows "is_whole a \<and>
         s' = \<lparr>committed = after_topup now env uid a (balance_value b) (balance_id b)
                              (committed s), txn = Idle\<rparr>"
proof -
  obtain bs where
    f: "filter (\<lambda>x. user_id x = uid) (tbl_balance (committed s)) = b # bs"
    using balance_of_SomeD [OF assms(3)] by blast
  from assms(3,4,5) show ?thesis
    by (simp add: run_topup [OF assms(1,2)] run_topup_write [OF assms(1) f]
        split: if_splits)
qed

lemma topup_ok_first:
  assumes "txn s = Idle" and "0 < a"
    and "balance_of (committed s) uid = None"
    and "run (topup env uid (JNum a)) now fails 0 s = (resp, s', sent)"
    and "is_success resp"
  shows "is_whole a \<and>
         s' = \<lparr>committed = after_topup now env uid a 0 (fresh_balance_id (committed s))
                              (balance_created (committed s) uid), txn = Idle\<rparr>"
  using assms(3,4,5)
  by (simp add: run_topup [OF assms(1,2)] run_topup_write_created [OF assms(1,3)]
      split: if_splits)

lemma success_effect:
  assumes "txn s = Idle"
    and "run (handle env uid req) now fails 0 s = (resp, s', sent)"
    and "is_success resp"
  shows "txn s' = Idle \<and>
         (\<exists>h b'. tbl_trx_history (committed s') = tbl_trx_history (committed s) @ [h] \<and>
            balance_of (committed s') uid = Some b' \<and>
            balance_value b' = balance_after h \<and>
            balance_before h =
              (case balance_of (committed s) uid of Some b \<Rightarrow> balance_value b | None \<Rightarrow> 0) \<and>
            (\<forall>c. req = Payment c \<longrightarrow>
               amount h \<le> balance_before h \<and>
               balance_after h = balance_before h - amount h))"
proof (cases req)
  case (Payment c)
  show ?thesis
  proof (cases c)
    case None
    with Payment assms(2,3) show ?thesis by (simp add: run_transaction_None)
  next
    case (Some code)
    with Payment assms(2) have
      r: "run (transaction env uid (Some code)) now fails 0 s = (resp, s', sent)"
      by simp
    from payment_ok_cases [OF assms(1) r assms(3)] obtain b sv where
      b: "balance_of (committed s) uid = Some b"
      and sv: "service_of (committed s) code = Some sv"
      and s': "s' = \<lparr>committed = after_payment now env b sv (committed s), txn = Idle\<rparr>"
      by blast
    have le: "service_tariff sv \<le> balance_value b"
      using payment_ok_funds [OF assms(1) r assms(3) b sv] .
    have "tbl_trx_history (committed s') =
            tbl_trx_history (committed s) @ [payment_row now env b sv]"
      using s' by (simp add: after_payment_def)
    moreover have "balance_of (committed s') uid =
                     Some (b\<lparr>balance_value := balance_value b - service_tariff sv\<rparr>)"
      using s' balance_of_after_payment [OF b] by simp
    ultimately show ?thesis
      using s' b le by (simp add: payment_row_def)
  qed
next
  case (TopUp v)
  have pos: "\<not> not_positive v"
  proof
    assume "not_positive v"
    with TopUp assms(2,3) show False
      by (simp add: not_positive_iff run_topup_invalid)
  qed
  then obtain a where a: "v = JNum a" "0 < a" by (rule positive_cases)
  from TopUp a assms(2) have
    r: "run (topup env uid (JNum a)) now fails 0 s = (resp, s', sent)"
    by simp
  show ?thesis
  proof (cases "balance_of (committed s) uid")
    case (Some b)
    from topup_ok_existing [OF assms(1) a(2) Some r assms(3)] have
      s': "s' = \<lparr>committed = after_topup now env uid a (balance_value b) (balance_id b)
                                (committed s), txn = Idle\<rparr>"
      by simp
    have "tbl_trx_history (committed s') =
            tbl_trx_history (committed s) @
              [topup_row now env a (balance_value b) (balance_id b)]"
      using s' by (simp add: after_topup_def)
    moreover have "balance_of (committed s') uid =
        Some (b\<lparr>balance_value :=
                 parseInt_num env (of_int (balance_value b)) + parseInt_num env a\<rparr>)"
      using s' balance_of_after_topup [OF Some] by simp
    ultimately show ?thesis
      using TopUp s' Some by (simp add: topup_row_def)
  next
    case None
    from topup_ok_first [OF assms(1) a(2) None r assms(3)] have
      s': "s' = \<lparr>committed = after_topup now env uid a 0 (fresh_balance_id (committed s))
                                (balance_created (committed s) uid), txn = Idle\<rparr>"
      by simp
    have "tbl_trx_history (committed s') =
            tbl_trx_history (committed s) @
              [topup_row now env a 0 (fresh_balance_id (committed s))]"
      using s' by (simp add: after_topup_def balance_created_def)
    moreover have "balance_of (committed s') uid =
        Some (\<lparr>balance_id = fresh_balance_id (committed s), user_id = uid, balance_value = 0\<rparr>
                \<lparr>balance_value := parseInt_num env (of_int 0) + parseInt_num env a\<rparr>)"
      using s' balance_of_after_topup [OF balance_of_balance_created [OF None]] by simp
    ultimately show ?thesis
      using TopUp s' None by (simp add: topup_row_def)
  qed
qed

lemma failed_request_session:
  assumes "txn s = Idle"
    and "run (handle env uid req) now fails 0 s = (resp, s', sent)"
    and "\<not> is_success resp"
  shows "s' = s \<or>
         ((\<exists>v. req = TopUp v) \<and> balance_of (committed s) uid = None \<and>
          s' = s\<lparr>committed := balance_created (committed s) uid\<rparr>)"
proof (cases req)
  case (Payment c)
  show ?thesis
  proof (cases c)
    case None
    with Payment assms(2) show ?thesis by (simp add: run_transaction_None)
  next
    case (Some code)
    with Payment assms have "s' = s"
      by (auto simp: run_transaction [OF assms(1)] run_transaction_write [OF assms(1)]
          split: if_splits option.splits)
    then show ?thesis by simp
  qed
next
  case (TopUp v)
  show ?thesis
  proof (cases "not_positive v")
    case True
    with TopUp assms(2) show ?thesis
      by (simp add: not_positive_iff run_topup_invalid)
  next
    case False
    then obtain a where a: "v = JNum a" "0 < a" by (rule positive_cases)
    show ?thesis
    proof (cases "balance_of (committed s) uid")
      case (Some b)
      then obtain bs where
        f: "filter (\<lambda>x. user_id x = uid) (tbl_balance (committed s)) = b # bs"
        using balance_of_SomeD by blast
      from TopUp a Some assms have "s' = s"
        by (auto simp: run_topup [OF assms(1) a(2)] run_topup_write [OF assms(1) f]
            split: if_splits)
      then show ?thesis by simp
    next
      case None
      from TopUp a None assms
      have "s' = s \<or> s' = s\<lparr>committed := balance_created (committed s) uid\<rparr>"
        by (auto simp: run_topup [OF assms(1) a(2)]
            run_topup_write_created [OF assms(1) None] split: if_splits)
      with TopUp None show ?thesis by auto
    qed
  qed
qed

text \<open>
  The handlers hand the session back with no transaction open, so the sessions the
  results below speak about are the ones the handlers meet.
\<close>

lemma handle_leaves_no_transaction:
  assumes "txn s = Idle"
    and "run (handle env uid req) now fails 0 s = (resp, s', sent)"
  shows "txn s' = Idle"
proof (cases "is_success resp")
  case True
  from success_effect [OF assms True] show ?thesis by blast
next
  case False
  from failed_request_session [OF assms False] assms(1) show ?thesis by auto
qed

lemma no_rollback_in_prefix: "Rollback \<notin> set xs \<Longrightarrow> Rollback \<notin> set (take k xs)"
  by (meson in_set_takeD)

lemma payment_sent_no_rollback: "Rollback \<notin> set (payment_sent env b sv)"
  by (simp add: payment_sent_def)

lemma topup_sent_no_rollback: "Rollback \<notin> set (topup_sent env uid a cur bid)"
  by (simp add: topup_sent_def)

text \<open>No handler sends \<^verbatim>\<open>ROLLBACK\<close>, whatever happens.\<close>

lemma handle_sends_no_rollback:
  assumes "txn s = Idle"
    and "run (handle env uid req) now fails 0 s = (resp, s', sent)"
  shows "Rollback \<notin> set sent"
proof (cases req)
  case (Payment c)
  show ?thesis
  proof (cases c)
    case None
    with Payment assms(2) show ?thesis by (simp add: run_transaction_None)
  next
    case (Some code)
    with Payment assms show ?thesis
      by (auto simp: run_transaction [OF assms(1)] run_transaction_write [OF assms(1)]
          no_rollback_in_prefix [OF payment_sent_no_rollback] payment_sent_no_rollback
          split: if_splits option.splits)
  qed
next
  case (TopUp v)
  show ?thesis
  proof (cases "not_positive v")
    case True
    with TopUp assms(2) show ?thesis
      by (simp add: not_positive_iff run_topup_invalid)
  next
    case False
    then obtain a where a: "v = JNum a" "0 < a" by (rule positive_cases)
    show ?thesis
    proof (cases "balance_of (committed s) uid")
      case (Some b)
      then obtain bs where
        f: "filter (\<lambda>x. user_id x = uid) (tbl_balance (committed s)) = b # bs"
        using balance_of_SomeD by blast
      from TopUp a Some assms show ?thesis
        by (auto simp: run_topup [OF assms(1) a(2)] run_topup_write [OF assms(1) f]
            no_rollback_in_prefix [OF topup_sent_no_rollback] topup_sent_no_rollback
            split: if_splits)
    next
      case None
      from TopUp a None assms show ?thesis
        by (auto simp: run_topup [OF assms(1) a(2)]
            run_topup_write_created [OF assms(1) None]
            no_rollback_in_prefix [OF topup_sent_no_rollback] topup_sent_no_rollback
            split: if_splits)
    qed
  qed
qed

section \<open>The history rows the handlers send\<close>

text \<open>
  Every run of a handler sends the statements of \<open>sent_on\<close> for some answers of the store.
\<close>

lemma run_sent_on:
  "run p now fails n s = (resp, s', sent) \<Longrightarrow> \<exists>answers. sent = sent_on p answers"
proof (induction p arbitrary: n s resp s' sent)
  case (Done r)
  then show ?case by simp
next
  case (Query q k)
  show ?case
  proof (cases "fst (exec now (fails n) q s) = QError")
    case True
    with Query.prems have "sent = [q]"
      by (cases "exec now (fails n) q s") auto
    then have "sent = sent_on (Query q k) []" by simp
    then show ?thesis by blast
  next
    case False
    obtain r s1 where e: "exec now (fails n) q s = (r, s1)" by fastforce
    with False have r: "r \<noteq> QError" by simp
    obtain resp1 s2 sent1 where
      r1: "run (k r) now fails (Suc n) s1 = (resp1, s2, sent1)"
      by (metis prod_cases3)
    from Query.prems e r r1 have sent: "sent = q # sent1"
      by (cases r) auto
    from Query.IH [OF _ r1] obtain answers where "sent1 = sent_on (k r) answers"
      by blast
    with sent r have "sent = sent_on (Query q k) (r # answers)" by simp
    then show ?thesis by blast
  qed
qed











section \<open>Runs on the sample store\<close>


lemma ex_balance_7:
  "balance_of ex_db 7 = Some \<lparr>balance_id = 1, user_id = 7, balance_value = 5000\<rparr>"
  by (simp add: balance_of_def ex_db_def)

lemma ex_balance_8: "balance_of ex_db 8 = None"
  by (simp add: balance_of_def ex_db_def)

lemma ex_service_PLN:
  "service_of ex_db ''PLN'' =
     Some \<lparr>service_code = ''PLN'', service_name = ''Listrik'', service_tariff = 3000\<rparr>"
  by (simp add: service_of_def ex_db_def)

lemma ex_service_TV:
  "service_of ex_db ''TV'' =
     Some \<lparr>service_code = ''TV'', service_name = ''TV Berlangganan'', service_tariff = 10000\<rparr>"
  by (simp add: service_of_def ex_db_def)

lemma ex_session_simps: "txn ex_session = Idle" "committed ex_session = ex_db"
  by (simp_all add: ex_session_def)

lemma ex_fresh_id: "fresh_balance_id ex_db = 2"
  by (simp add: fresh_balance_id_def ex_db_def)

lemma parseInt_1500: "parseInt_num env 1500 = 1500"
  by (simp add: parseInt_num_def plain_decimal_def)

lemma parseInt_5000: "parseInt_num env 5000 = 5000"
  by (simp add: parseInt_num_def plain_decimal_def)

lemma parseInt_0: "parseInt_num env 0 = 0"
  by (simp add: parseInt_num_def plain_decimal_def)

lemma floor_25_2: "\<lfloor>25 / 2 :: rat\<rfloor> = 12"
  by code_simp

lemma not_whole_25_2: "\<not> is_whole (25 / 2)"
  by (simp add: is_whole_def floor_25_2)

lemma parseInt_25_2: "parseInt_num env (25 / 2) = 12"
  by (simp add: parseInt_num_def plain_decimal_def floor_25_2)

lemma is_whole_1500: "is_whole 1500"
  by (simp add: is_whole_def)

lemma ex_filter_7:
  "filter (\<lambda>x. user_id x = 7) (tbl_balance (committed ex_session)) =
     \<lparr>balance_id = 1, user_id = 7, balance_value = 5000\<rparr> # []"
  by (simp add: ex_session_simps) (simp add: ex_db_def)

lemma ex_topup_7:
  assumes "0 < a"
  shows "run (topup ex_env 7 (JNum a)) 100 fails 0 ex_session =
     (if fails 0 then (ServerError, ex_session, [SelectBalanceValue 7])
      else (case run (topup_write ex_env 7 a 5000) 100 fails (Suc 0) ex_session of
              (r, s', l) \<Rightarrow> (r, s', SelectBalanceValue 7 # l)))"
  using run_topup [of ex_session a ex_env 7 100 fails] assms
  by (simp add: ex_session_simps ex_balance_7)

lemma ex_topup_write_7:
  "run (topup_write ex_env 7 a 5000) 100 fails (Suc 0) ex_session =
     (if fails 1 then (ServerError, ex_session, [Begin])
      else if fails 2 then
        (ServerError, ex_session, [Begin, UpdateBalanceByUser (5000 + parseInt_num ex_env a) 7])
      else if fails 3 \<or> \<not> is_whole a then
        (ServerError, ex_session,
         [Begin, UpdateBalanceByUser (5000 + parseInt_num ex_env a) 7,
          InsertHistory 1 (generateInvoiceNumber ex_env) a 5000 (5000 + parseInt_num ex_env a)
            TOPUP ''Top Up Balance''])
      else if fails 4 then
        (ServerError, ex_session,
         [Begin, UpdateBalanceByUser (5000 + parseInt_num ex_env a) 7,
          InsertHistory 1 (generateInvoiceNumber ex_env) a 5000 (5000 + parseInt_num ex_env a)
            TOPUP ''Top Up Balance'', Commit])
      else
        (TopupOk (5000 + parseInt_num ex_env a),
         \<lparr>committed = after_topup 100 ex_env 7 a 5000 1 ex_db, txn = Idle\<rparr>,
         [Begin, UpdateBalanceByUser (5000 + parseInt_num ex_env a) 7,
          InsertHistory 1 (generateInvoiceNumber ex_env) a 5000 (5000 + parseInt_num ex_env a)
            TOPUP ''Top Up Balance'', Commit]))"
proof -
  have h: "txn ex_session = Idle" by (simp add: ex_session_simps)
  show ?thesis
    by (simp add: run_topup_write [OF h ex_filter_7] ex_session_simps parseInt_5000
        topup_sent_def numeral_2_eq_2 [symmetric])
qed

lemma ex_topup_1500:
  "run (handle ex_env 7 (TopUp (JNum 1500))) 100 no_fault 0 ex_session =
     (TopupOk 6500, \<lparr>committed = after_topup 100 ex_env 7 1500 5000 1 ex_db, txn = Idle\<rparr>,
      [SelectBalanceValue 7, Begin, UpdateBalanceByUser 6500 7,
       InsertHistory 1 (generateInvoiceNumber ex_env) 1500 5000 6500 TOPUP ''Top Up Balance'',
       Commit])"
  by (simp add: ex_topup_7 ex_topup_write_7 no_fault_def parseInt_1500 is_whole_1500)

lemma ex_fraction_topup:
  "run (topup ex_env 7 (JNum (25 / 2))) 100 no_fault 0 ex_session =
     (ServerError, ex_session,
      [SelectBalanceValue 7, Begin, UpdateBalanceByUser 5012 7,
       InsertHistory 1 (generateInvoiceNumber ex_env) (25 / 2) 5000 5012 TOPUP
         ''Top Up Balance''])"
  by (simp add: ex_topup_7 ex_topup_write_7 no_fault_def parseInt_25_2 not_whole_25_2)

lemma ex_first_topup:
  "run (topup ex_env 8 (JNum 1500)) 100 fails 0 ex_session =
     (if fails 0 then (ServerError, ex_session, [SelectBalanceValue 8])
      else if fails 1 then (ServerError, ex_session, [SelectBalanceValue 8, InsertBalance 8])
      else (case run (topup_write ex_env 8 1500 0) 100 fails 2
                   (ex_session\<lparr>committed := balance_created ex_db 8\<rparr>) of
              (r, s', l) \<Rightarrow> (r, s', SelectBalanceValue 8 # InsertBalance 8 # l)))"
  using run_topup [of ex_session 1500 ex_env 8 100 fails]
  by (simp add: ex_session_simps ex_balance_8)

lemma ex_first_topup_write:
  "run (topup_write ex_env 8 1500 0) 100 fails 2
       (ex_session\<lparr>committed := balance_created ex_db 8\<rparr>) =
     (if fails 2 then
        (ServerError, ex_session\<lparr>committed := balance_created ex_db 8\<rparr>, [Begin])
      else if fails 3 then
        (ServerError, ex_session\<lparr>committed := balance_created ex_db 8\<rparr>,
         [Begin, UpdateBalanceByUser 1500 8])
      else if fails 4 then
        (ServerError, ex_session\<lparr>committed := balance_created ex_db 8\<rparr>,
         [Begin, UpdateBalanceByUser 1500 8,
          InsertHistory 2 (generateInvoiceNumber ex_env) 1500 0 1500 TOPUP ''Top Up Balance''])
      else if fails 5 then
        (ServerError, ex_session\<lparr>committed := balance_created ex_db 8\<rparr>,
         [Begin, UpdateBalanceByUser 1500 8,
          InsertHistory 2 (generateInvoiceNumber ex_env) 1500 0 1500 TOPUP ''Top Up Balance'',
          Commit])
      else
        (TopupOk 1500,
         \<lparr>committed = after_topup 100 ex_env 8 1500 0 2 (balance_created ex_db 8), txn = Idle\<rparr>,
         [Begin, UpdateBalanceByUser 1500 8,
          InsertHistory 2 (generateInvoiceNumber ex_env) 1500 0 1500 TOPUP ''Top Up Balance'',
          Commit]))"
  using run_topup_write_created [of ex_session 8 ex_env 1500 100 fails 2]
  by (simp add: ex_session_simps ex_balance_8 ex_fresh_id parseInt_1500 parseInt_0
      is_whole_1500 topup_sent_def)

lemma ex_created_balance:
  "balance_of (balance_created ex_db 8) 8 =
     Some \<lparr>balance_id = 2, user_id = 8, balance_value = 0\<rparr>"
  using balance_of_balance_created [OF ex_balance_8] by (simp add: ex_fresh_id)

lemma ex_payment_PLN:
  "run (transaction ex_env 7 (Some ''PLN'')) 100 fails 0 ex_session =
     (if fails 0 then (ServerError, ex_session, [SelectBalance 7])
      else if fails 1 then (ServerError, ex_session, [SelectBalance 7, SelectService ''PLN''])
      else if fails 2 then
        (ServerError, ex_session, [SelectBalance 7, SelectService ''PLN'', Begin])
      else if fails 3 then
        (ServerError, ex_session,
         [SelectBalance 7, SelectService ''PLN'', Begin, UpdateBalanceById 2000 1])
      else if fails 4 then
        (ServerError, ex_session,
         [SelectBalance 7, SelectService ''PLN'', Begin, UpdateBalanceById 2000 1,
          InsertHistory 1 (generateInvoiceNumber ex_env) 3000 5000 2000 PAYMENT ''Listrik''])
      else if fails 5 then
        (ServerError, ex_session,
         [SelectBalance 7, SelectService ''PLN'', Begin, UpdateBalanceById 2000 1,
          InsertHistory 1 (generateInvoiceNumber ex_env) 3000 5000 2000 PAYMENT ''Listrik'',
          Commit])
      else
        (PaymentOk \<lparr> p_invoice_number = generateInvoiceNumber ex_env, p_service_code = ''PLN'',
                     p_service_name = ''Listrik'', p_transaction_type = PAYMENT,
                     p_total_amount = 3000, p_created_on = 100 \<rparr>,
         \<lparr>committed = after_payment 100 ex_env
            \<lparr>balance_id = 1, user_id = 7, balance_value = 5000\<rparr>
            \<lparr>service_code = ''PLN'', service_name = ''Listrik'', service_tariff = 3000\<rparr> ex_db,
          txn = Idle\<rparr>,
         [SelectBalance 7, SelectService ''PLN'', Begin, UpdateBalanceById 2000 1,
          InsertHistory 1 (generateInvoiceNumber ex_env) 3000 5000 2000 PAYMENT ''Listrik'',
          Commit]))"
  using run_transaction [of ex_session ex_env 7 "''PLN''" 100 fails]
    run_transaction_write [of ex_session ex_env "''PLN''"
      "\<lparr>balance_id = 1, user_id = 7, balance_value = 5000\<rparr>"
      "\<lparr>service_code = ''PLN'', service_name = ''Listrik'', service_tariff = 3000\<rparr>"
      100 fails 2]
  by (simp add: ex_session_simps ex_balance_7 ex_service_PLN payment_sent_def)

lemma ex_after_payment:
  "after_payment 100 env
     \<lparr>balance_id = 1, user_id = 7, balance_value = 5000\<rparr>
     \<lparr>service_code = ''PLN'', service_name = ''Listrik'', service_tariff = 3000\<rparr> ex_db =
   ex_db\<lparr> tbl_balance := [\<lparr>balance_id = 1, user_id = 7, balance_value = 2000\<rparr>],
          tbl_trx_history := tbl_trx_history ex_db @
            [\<lparr> h_balance_id = 1, invoice_number = generateInvoiceNumber env, amount = 3000,
               balance_before = 5000, balance_after = 2000, trx_type = PAYMENT,
               description = ''Listrik'', created_date = 100 \<rparr>] \<rparr>"
  by (simp add: after_payment_def payment_row_def) (simp add: ex_db_def)

lemma ex_balance_after_topup:
  "balance_of (after_topup 100 ex_env 7 1500 5000 1 ex_db) 7 =
     Some \<lparr>balance_id = 1, user_id = 7, balance_value = 6500\<rparr>"
  using balance_of_after_topup [OF ex_balance_7, of 100 ex_env 1500 5000 1]
  by (simp add: parseInt_5000 parseInt_1500)

lemma ex_service_after_topup:
  "service_of (after_topup 100 ex_env 7 1500 5000 1 ex_db) ''PLN'' =
     Some \<lparr>service_code = ''PLN'', service_name = ''Listrik'', service_tariff = 3000\<rparr>"
  using ex_service_PLN by (simp add: service_of_def after_topup_def)



section \<open>Payments\<close>

text \<open>
  Claim C5. A payment for which the balance read is strictly below the tariff of the
  service answers \<open>InsufficientFunds\<close>; it has sent the two reads and nothing else, and
  the session, balance and history included, is exactly as before.
\<close>

theorem payment_insufficient_funds:
  assumes "txn s = Idle" and "code \<noteq> []"
    and "balance_of (committed s) uid = Some b"
    and "service_of (committed s) code = Some sv"
    and "balance_value b < service_tariff sv"
    and "\<not> fails 0" and "\<not> fails 1"
  shows "run (transaction env uid (Some code)) now fails 0 s =
           (InsufficientFunds, s, [SelectBalance uid, SelectService code])"
proof -
  obtain bs where b: "filter (\<lambda>x. user_id x = uid) (tbl_balance (committed s)) = b # bs"
    using balance_of_SomeD [OF assms(3)] by blast
  obtain svs where sv: "filter (\<lambda>x. service_code x = code) (tbl_service (committed s)) = sv # svs"
    using service_of_SomeD [OF assms(4)] by blast
  show ?thesis
    using assms(1,2,5,6,7) b sv
    by (simp add: transaction_def exec_select_balance exec_select_service)
qed

text \<open>User 7 holds 5000 and asks for the service of tariff 10000.\<close>

theorem payment_insufficient_funds_witness:
  "txn ex_session = Idle \<and> ''TV'' \<noteq> [] \<and>
   balance_of (committed ex_session) 7 =
     Some \<lparr>balance_id = 1, user_id = 7, balance_value = 5000\<rparr> \<and>
   service_of (committed ex_session) ''TV'' =
     Some \<lparr>service_code = ''TV'', service_name = ''TV Berlangganan'', service_tariff = 10000\<rparr> \<and>
   (5000 :: int) < 10000 \<and>
   run (transaction ex_env 7 (Some ''TV'')) 100 no_fault 0 ex_session =
     (InsufficientFunds, ex_session, [SelectBalance 7, SelectService ''TV''])"
proof -
  let ?b = "\<lparr>balance_id = 1, user_id = 7, balance_value = 5000\<rparr>"
  let ?sv = "\<lparr>service_code = ''TV'', service_name = ''TV Berlangganan'', service_tariff = 10000\<rparr>"
  have h1: "txn ex_session = Idle" by (simp add: ex_session_simps)
  have h2: "''TV'' \<noteq> []" by simp
  have h3: "balance_of (committed ex_session) 7 = Some ?b"
    by (simp add: ex_session_simps ex_balance_7)
  have h4: "service_of (committed ex_session) ''TV'' = Some ?sv"
    by (simp add: ex_session_simps ex_service_TV)
  have h5: "balance_value ?b < service_tariff ?sv" by simp
  have h6: "\<not> no_fault 0" "\<not> no_fault 1" by (simp_all add: no_fault_def)
  from payment_insufficient_funds [OF h1 h2 h3 h4 h5 h6, of ex_env 100] h1 h3 h4
  show ?thesis by simp
qed




section \<open>Top-ups\<close>

text \<open>
  Claim C6, as amended. A top-up whose amount is not a positive number (absent, \<^verbatim>\<open>null\<close>,
  zero or negative) answers \<open>InvalidAmount\<close>: the handler is the program that answers at
  once, so it sends no statement, and the session is untouched, whatever the store would
  have done.
\<close>

theorem topup_rejects_not_positive:
  assumes "not_positive v"
  shows "topup env uid v = Done InvalidAmount \<and>
         run (topup env uid v) now fails n s = (InvalidAmount, s, [])"
  using assms by (cases v) (simp_all add: topup_def)

text \<open>Top-ups of 0, of -5 and of \<^verbatim>\<open>null\<close>.\<close>

theorem topup_rejects_not_positive_witness:
  "not_positive (JNum 0) \<and> not_positive (JNum (- 5)) \<and> not_positive JNull \<and>
   topup ex_env 7 (JNum 0) = Done InvalidAmount \<and>
   run (topup ex_env 7 (JNum (- 5))) 100 no_fault 0 ex_session = (InvalidAmount, ex_session, []) \<and>
   run (topup ex_env 7 JNull) 100 no_fault 0 ex_session = (InvalidAmount, ex_session, [])"
proof -
  have a: "not_positive (JNum 0)" and b: "not_positive (JNum (- 5))" and c: "not_positive JNull"
    by simp_all
  from topup_rejects_not_positive [OF a, of ex_env 7 100 no_fault 0 ex_session]
    topup_rejects_not_positive [OF b, of ex_env 7 100 no_fault 0 ex_session]
    topup_rejects_not_positive [OF c, of ex_env 7 100 no_fault 0 ex_session]
    a b c
  show ?thesis by blast
qed

text \<open>
  Claim C6 as stated fails: 12.5 is not a positive integer, yet a top-up of 12.5 passes the
  validation, which only asks for a number above 0. The answer is not \<open>InvalidAmount\<close>,
  and the handler has gone to the store: it has read the balance, opened a transaction
  and sent the update of the balance to 5000 + \<^verbatim>\<open>parseInt(12.5)\<close>.
\<close>

theorem topup_fraction_counterexample:
  "\<not> is_whole (25 / 2) \<and>
   fst (run (topup ex_env 7 (JNum (25 / 2))) 100 no_fault 0 ex_session) \<noteq> InvalidAmount \<and>
   take 3 (snd (snd (run (topup ex_env 7 (JNum (25 / 2))) 100 no_fault 0 ex_session))) =
     [SelectBalanceValue 7, Begin, UpdateBalanceByUser 5012 7]"
  by (simp add: ex_fraction_topup not_whole_25_2)

text \<open>
  Claim C3, as amended. In a top-up that runs alone on a session with no open transaction,
  by a user who has no balance row, the zero-value row is inserted by a statement of its
  own, sent before \<^verbatim>\<open>BEGIN\<close>, and is durable at once. The statements sent are, in this
  order and up to the one that fails, the read of the balance, the insert of the row,
  \<^verbatim>\<open>BEGIN\<close>, the balance update, the history insert and \<^verbatim>\<open>COMMIT\<close>: only the balance
  update and the history insert are inside the transaction. When the top-up does not
  succeed after the insert of the row, the created row remains, with value 0.
\<close>

theorem first_topup_row_outside_transaction:
  assumes "txn s = Idle"
    and "balance_of (committed s) uid = None"
    and "0 < a" and "\<not> fails 0" and "\<not> fails 1"
    and "run (topup env uid (JNum a)) now fails 0 s = (resp, s', sent)"
  shows "(\<exists>k. 3 \<le> k \<and> k \<le> 6 \<and>
            sent = take k
              [SelectBalanceValue uid, InsertBalance uid, Begin,
               UpdateBalanceByUser (parseInt_num env (of_int 0) + parseInt_num env a) uid,
               InsertHistory (fresh_balance_id (committed s)) (generateInvoiceNumber env) a 0
                 (parseInt_num env (of_int 0) + parseInt_num env a) TOPUP ''Top Up Balance'',
               Commit]) \<and>
         (is_success resp \<longrightarrow>
            sent =
              [SelectBalanceValue uid, InsertBalance uid, Begin,
               UpdateBalanceByUser (parseInt_num env (of_int 0) + parseInt_num env a) uid,
               InsertHistory (fresh_balance_id (committed s)) (generateInvoiceNumber env) a 0
                 (parseInt_num env (of_int 0) + parseInt_num env a) TOPUP ''Top Up Balance'',
               Commit]) \<and>
         exec now False (InsertBalance uid) s =
           (CommandOk, s\<lparr>committed := balance_created (committed s) uid\<rparr>) \<and>
         balance_of (balance_created (committed s) uid) uid =
           Some \<lparr>balance_id = fresh_balance_id (committed s), user_id = uid,
                 balance_value = 0\<rparr> \<and>
         (\<not> is_success resp \<longrightarrow> committed s' = balance_created (committed s) uid)"
proof -
  let ?all = "[SelectBalanceValue uid, InsertBalance uid, Begin,
               UpdateBalanceByUser (parseInt_num env (of_int 0) + parseInt_num env a) uid,
               InsertHistory (fresh_balance_id (committed s)) (generateInvoiceNumber env) a 0
                 (parseInt_num env (of_int 0) + parseInt_num env a) TOPUP ''Top Up Balance'',
               Commit]"
  from assms have "sent = take 3 ?all \<or> sent = take 4 ?all \<or> sent = take 5 ?all \<or>
                   sent = take 6 ?all"
    by (auto simp: run_topup [OF assms(1,3)] run_topup_write_created [OF assms(1,2)]
        topup_sent_def split: if_splits)
  moreover have "sent = take 3 ?all \<Longrightarrow> \<exists>k. 3 \<le> k \<and> k \<le> 6 \<and> sent = take k ?all"
    by (rule exI [of _ 3]) simp
  moreover have "sent = take 4 ?all \<Longrightarrow> \<exists>k. 3 \<le> k \<and> k \<le> 6 \<and> sent = take k ?all"
    by (rule exI [of _ 4]) simp
  moreover have "sent = take 5 ?all \<Longrightarrow> \<exists>k. 3 \<le> k \<and> k \<le> 6 \<and> sent = take k ?all"
    by (rule exI [of _ 5]) simp
  moreover have "sent = take 6 ?all \<Longrightarrow> \<exists>k. 3 \<le> k \<and> k \<le> 6 \<and> sent = take k ?all"
    by (rule exI [of _ 6]) simp
  ultimately have "\<exists>k. 3 \<le> k \<and> k \<le> 6 \<and> sent = take k ?all"
    by blast
  moreover from assms have "is_success resp \<longrightarrow> sent = ?all"
    by (auto simp: run_topup [OF assms(1,3)] run_topup_write_created [OF assms(1,2)]
        topup_sent_def split: if_splits)
  moreover from assms have "\<not> is_success resp \<longrightarrow> committed s' = balance_created (committed s) uid"
    by (auto simp: run_topup [OF assms(1,3)] run_topup_write_created [OF assms(1,2)]
        split: if_splits)
  ultimately show ?thesis
    using exec_insert_balance [OF assms(1)] balance_of_balance_created [OF assms(2)]
    by simp
qed

text \<open>User 8 has no balance row and tops up 1500; the balance update fails.\<close>

theorem first_topup_row_outside_transaction_witness:
  "txn ex_session = Idle \<and> balance_of (committed ex_session) 8 = None \<and> (0 :: rat) < 1500 \<and>
   run (topup ex_env 8 (JNum 1500)) 100 (\<lambda>i. i = 3) 0 ex_session =
     (ServerError, ex_session\<lparr>committed := balance_created ex_db 8\<rparr>,
      [SelectBalanceValue 8, InsertBalance 8, Begin, UpdateBalanceByUser 1500 8]) \<and>
   committed (ex_session\<lparr>committed := balance_created ex_db 8\<rparr>) =
     balance_created (committed ex_session) 8"
proof -
  have h1: "txn ex_session = Idle" by (simp add: ex_session_simps)
  have h2: "balance_of (committed ex_session) 8 = None"
    by (simp add: ex_session_simps ex_balance_8)
  have h3: "(0 :: rat) < 1500" by simp
  have h4: "\<not> (\<lambda>i. i = (3 :: nat)) 0" "\<not> (\<lambda>i. i = (3 :: nat)) 1" by simp_all
  have r: "run (topup ex_env 8 (JNum 1500)) 100 (\<lambda>i. i = 3) 0 ex_session =
     (ServerError, ex_session\<lparr>committed := balance_created ex_db 8\<rparr>,
      [SelectBalanceValue 8, InsertBalance 8, Begin, UpdateBalanceByUser 1500 8])"
    by (simp add: ex_first_topup ex_first_topup_write)
  from first_topup_row_outside_transaction [OF h1 h2 h3 h4 r]
  have "committed (ex_session\<lparr>committed := balance_created ex_db 8\<rparr>) =
          balance_created (committed ex_session) 8"
    by simp
  with h1 h2 h3 r show ?thesis by blast
qed

text \<open>
  Claim C3 as stated fails: in the same top-up of user 8, let \<^verbatim>\<open>COMMIT\<close> fail. The
  transaction has not committed, yet the balance row created for user 8 is in the durable
  state: it was inserted before \<^verbatim>\<open>BEGIN\<close>.
\<close>

theorem first_topup_row_counterexample:
  "balance_of (committed ex_session) 8 = None \<and>
   run (topup ex_env 8 (JNum 1500)) 100 (\<lambda>i. i = 5) 0 ex_session =
     (ServerError, ex_session\<lparr>committed := balance_created ex_db 8\<rparr>,
      [SelectBalanceValue 8, InsertBalance 8, Begin, UpdateBalanceByUser 1500 8,
       InsertHistory 2 (generateInvoiceNumber ex_env) 1500 0 1500 TOPUP ''Top Up Balance'',
       Commit]) \<and>
   tbl_balance (balance_created ex_db 8) =
     [\<lparr>balance_id = 1, user_id = 7, balance_value = 5000\<rparr>,
      \<lparr>balance_id = 2, user_id = 8, balance_value = 0\<rparr>] \<and>
   tbl_trx_history (balance_created ex_db 8) = tbl_trx_history ex_db"
proof -
  have "tbl_balance (balance_created ex_db 8) =
     [\<lparr>balance_id = 1, user_id = 7, balance_value = 5000\<rparr>,
      \<lparr>balance_id = 2, user_id = 8, balance_value = 0\<rparr>]"
    by (simp add: balance_created_def ex_fresh_id) (simp add: ex_db_def)
  moreover have "tbl_trx_history (balance_created ex_db 8) = tbl_trx_history ex_db"
    by (simp add: balance_created_def)
  ultimately show ?thesis
    by (simp add: ex_first_topup ex_first_topup_write ex_session_simps ex_balance_8)
qed

section \<open>Operations that fail\<close>

text \<open>
  Claim C1, as amended. When a top-up or a payment that runs on a session with no open
  transaction does not succeed, whichever statement has failed, nothing sent after
  \<^verbatim>\<open>BEGIN\<close> is durable: the tables are as before the call, except that the balance row a
  first top-up inserts before \<^verbatim>\<open>BEGIN\<close> stays, with value 0.
\<close>

theorem failed_request_not_durable:
  assumes "txn s = Idle"
    and "run (handle env uid req) now fails 0 s = (resp, s', sent)"
    and "\<not> is_success resp"
  shows "committed s' = committed s \<or>
         ((\<exists>v. req = TopUp v) \<and> balance_of (committed s) uid = None \<and>
          committed s' = balance_created (committed s) uid)"
  using failed_request_session [OF assms] by auto

text \<open>
  User 7 pays the service of tariff 3000, and the history insert fails after the balance
  update: the store is as before.
\<close>

theorem failed_request_not_durable_witness:
  "txn ex_session = Idle \<and>
   run (handle ex_env 7 (Payment (Some ''PLN''))) 100 (\<lambda>i. i = 4) 0 ex_session =
     (ServerError, ex_session,
      [SelectBalance 7, SelectService ''PLN'', Begin, UpdateBalanceById 2000 1,
       InsertHistory 1 (generateInvoiceNumber ex_env) 3000 5000 2000 PAYMENT ''Listrik'']) \<and>
   \<not> is_success ServerError \<and>
   (committed ex_session = committed ex_session \<or>
    balance_of (committed ex_session) 7 = None)"
proof -
  have h1: "txn ex_session = Idle" by (simp add: ex_session_simps)
  have r: "run (handle ex_env 7 (Payment (Some ''PLN''))) 100 (\<lambda>i. i = 4) 0 ex_session =
     (ServerError, ex_session,
      [SelectBalance 7, SelectService ''PLN'', Begin, UpdateBalanceById 2000 1,
       InsertHistory 1 (generateInvoiceNumber ex_env) 3000 5000 2000 PAYMENT ''Listrik''])"
    by (simp add: ex_payment_PLN)
  have h3: "\<not> is_success ServerError" by simp
  from failed_request_not_durable [OF h1 r h3]
  have "committed ex_session = committed ex_session \<or>
        balance_of (committed ex_session) 7 = None"
    by blast
  with h1 r h3 show ?thesis by blast
qed

text \<open>
  Claim C1 as stated fails: user 8 has no balance row and tops up 1500; the history
  insert, sent after \<^verbatim>\<open>BEGIN\<close> and the balance update, fails. The answer is the 500 of
  the \<^verbatim>\<open>catch\<close> block, and the store is not as before the call: a balance row for user 8,
  of value 0, has become durable.
\<close>

theorem failed_first_topup_counterexample:
  "txn ex_session = Idle \<and>
   balance_of (committed ex_session) 8 = None \<and>
   run (topup ex_env 8 (JNum 1500)) 100 (\<lambda>i. i = 4) 0 ex_session =
     (ServerError, ex_session\<lparr>committed := balance_created ex_db 8\<rparr>,
      [SelectBalanceValue 8, InsertBalance 8, Begin, UpdateBalanceByUser 1500 8,
       InsertHistory 2 (generateInvoiceNumber ex_env) 1500 0 1500 TOPUP ''Top Up Balance'']) \<and>
   balance_of (committed (ex_session\<lparr>committed := balance_created ex_db 8\<rparr>)) 8 =
     Some \<lparr>balance_id = 2, user_id = 8, balance_value = 0\<rparr>"
  by (simp add: ex_first_topup ex_first_topup_write ex_session_simps ex_balance_8
      ex_created_balance)

section \<open>History rows of committed operations\<close>




section \<open>Operations one after another, and in flight together\<close>

text \<open>
  Claim C2, as amended. When two operations on the balance of a user run one after the
  other on a session with no open transaction, and both commit, the second has read the
  value the first committed: the balance before of its history row is the balance after of
  the first. A payment commits only when the tariff does not exceed the balance it has
  read, and leaves that balance minus the tariff. Nothing serialises operations that are
  in flight together.
\<close>

theorem sequential_operations_chain:
  assumes "txn s = Idle"
    and "run (handle env1 uid req1) now1 fails1 0 s = (r1, s1, sent1)"
    and "is_success r1"
    and "run (handle env2 uid req2) now2 fails2 0 s1 = (r2, s2, sent2)"
    and "is_success r2"
  shows "\<exists>h1 h2.
           tbl_trx_history (committed s2) = tbl_trx_history (committed s) @ [h1, h2] \<and>
           balance_before h2 = balance_after h1 \<and>
           (\<forall>c. req1 = Payment c \<longrightarrow>
              amount h1 \<le> balance_before h1 \<and>
              balance_after h1 = balance_before h1 - amount h1) \<and>
           (\<forall>c. req2 = Payment c \<longrightarrow>
              amount h2 \<le> balance_before h2 \<and>
              balance_after h2 = balance_before h2 - amount h2)"
proof -
  from success_effect [OF assms(1,2,3)] obtain h1 b1 where
    t1: "txn s1 = Idle"
    and hist1: "tbl_trx_history (committed s1) = tbl_trx_history (committed s) @ [h1]"
    and bal1: "balance_of (committed s1) uid = Some b1"
    and val1: "balance_value b1 = balance_after h1"
    and pay1: "\<forall>c. req1 = Payment c \<longrightarrow>
                 amount h1 \<le> balance_before h1 \<and>
                 balance_after h1 = balance_before h1 - amount h1"
    by blast
  from success_effect [OF t1 assms(4,5)] obtain h2 where
    hist2: "tbl_trx_history (committed s2) = tbl_trx_history (committed s1) @ [h2]"
    and before2: "balance_before h2 =
        (case balance_of (committed s1) uid of Some b \<Rightarrow> balance_value b | None \<Rightarrow> 0)"
    and pay2: "\<forall>c. req2 = Payment c \<longrightarrow>
                 amount h2 \<le> balance_before h2 \<and>
                 balance_after h2 = balance_before h2 - amount h2"
    by blast
  from hist1 hist2 have
    "tbl_trx_history (committed s2) = tbl_trx_history (committed s) @ [h1, h2]"
    by simp
  moreover from before2 bal1 val1 have "balance_before h2 = balance_after h1"
    by simp
  ultimately show ?thesis using pay1 pay2 by blast
qed

text \<open>User 7 tops up 1500 and then pays the service of tariff 3000.\<close>

theorem sequential_operations_chain_witness:
  "txn ex_session = Idle \<and>
   run (handle ex_env 7 (TopUp (JNum 1500))) 100 no_fault 0 ex_session =
     (TopupOk 6500, \<lparr>committed = after_topup 100 ex_env 7 1500 5000 1 ex_db, txn = Idle\<rparr>,
      [SelectBalanceValue 7, Begin, UpdateBalanceByUser 6500 7,
       InsertHistory 1 (generateInvoiceNumber ex_env) 1500 5000 6500 TOPUP ''Top Up Balance'',
       Commit]) \<and>
   is_success (TopupOk 6500) \<and>
   is_success (fst (run (handle ex_env2 7 (Payment (Some ''PLN''))) 200 no_fault 0
      \<lparr>committed = after_topup 100 ex_env 7 1500 5000 1 ex_db, txn = Idle\<rparr>)) \<and>
   (\<exists>h1 h2.
      tbl_trx_history (committed (fst (snd (run (handle ex_env2 7 (Payment (Some ''PLN''))) 200
         no_fault 0 \<lparr>committed = after_topup 100 ex_env 7 1500 5000 1 ex_db, txn = Idle\<rparr>)))) =
        tbl_trx_history (committed ex_session) @ [h1, h2] \<and>
      balance_before h2 = balance_after h1 \<and> amount h2 \<le> balance_before h2)"
proof -
  let ?s1 = "\<lparr>committed = after_topup 100 ex_env 7 1500 5000 1 ex_db, txn = Idle\<rparr>"
  let ?r2 = "run (handle ex_env2 7 (Payment (Some ''PLN''))) 200 no_fault 0 ?s1"
  have h1: "txn ex_session = Idle" by (simp add: ex_session_simps)
  note r1 = ex_topup_1500
  have h3: "is_success (TopupOk 6500)" by simp
  have t1: "txn ?s1 = Idle" by simp
  have b1: "balance_of (committed ?s1) 7 =
              Some \<lparr>balance_id = 1, user_id = 7, balance_value = 6500\<rparr>"
    using ex_balance_after_topup by simp
  have sv1: "service_of (committed ?s1) ''PLN'' =
      Some \<lparr>service_code = ''PLN'', service_name = ''Listrik'', service_tariff = 3000\<rparr>"
    using ex_service_after_topup by simp
  have ok2: "is_success (fst ?r2)"
    using payment_succeeds [OF t1 _ b1 sv1, of no_fault ex_env2 200]
    by (simp add: no_fault_def)
  have r2: "?r2 = (fst ?r2, fst (snd ?r2), snd (snd ?r2))" by simp
  from sequential_operations_chain [OF h1 r1 h3 r2 ok2]
  have "\<exists>h1 h2.
      tbl_trx_history (committed (fst (snd ?r2))) =
        tbl_trx_history (committed ex_session) @ [h1, h2] \<and>
      balance_before h2 = balance_after h1 \<and> amount h2 \<le> balance_before h2"
    by blast
  with h1 r1 h3 ok2 show ?thesis by blast
qed

text \<open>
  Claim C2 as stated fails. Two payments of the service of tariff 3000 by user 7, who
  holds 5000, are in flight together; each handler reads the balance before it sends
  \<^verbatim>\<open>BEGIN\<close>, and the reads of the second come before the writes of the first. Both read
  5000, both pass the check against the tariff, and both commit: 6000 is charged, the
  balance ends at 2000, and both history rows claim to lead from 5000 to 2000. One after
  the other, the second payment is refused.
\<close>

theorem interleaved_payments_both_commit:
  "interleave [True, True, False, False, True, True, True, True, False, False, False, False] 100
     (transaction ex_env 7 (Some ''PLN'')) (transaction ex_env2 7 (Some ''PLN'')) ex_session =
     (Done (PaymentOk \<lparr> p_invoice_number = generateInvoiceNumber ex_env,
                        p_service_code = ''PLN'', p_service_name = ''Listrik'',
                        p_transaction_type = PAYMENT, p_total_amount = 3000,
                        p_created_on = 100 \<rparr>),
      Done (PaymentOk \<lparr> p_invoice_number = generateInvoiceNumber ex_env2,
                        p_service_code = ''PLN'', p_service_name = ''Listrik'',
                        p_transaction_type = PAYMENT, p_total_amount = 3000,
                        p_created_on = 100 \<rparr>),
      \<lparr>committed =
         ex_db\<lparr> tbl_balance := [\<lparr>balance_id = 1, user_id = 7, balance_value = 2000\<rparr>],
                tbl_trx_history := tbl_trx_history ex_db @
                  [\<lparr> h_balance_id = 1, invoice_number = generateInvoiceNumber ex_env,
                     amount = 3000, balance_before = 5000, balance_after = 2000,
                     trx_type = PAYMENT, description = ''Listrik'', created_date = 100 \<rparr>,
                   \<lparr> h_balance_id = 1, invoice_number = generateInvoiceNumber ex_env2,
                     amount = 3000, balance_before = 5000, balance_after = 2000,
                     trx_type = PAYMENT, description = ''Listrik'', created_date = 100 \<rparr>] \<rparr>,
       txn = Idle\<rparr>) \<and>
   fst (run (transaction ex_env2 7 (Some ''PLN'')) 100 no_fault 0
          (fst (snd (run (transaction ex_env 7 (Some ''PLN'')) 100 no_fault 0 ex_session)))) =
     InsufficientFunds"
proof -
  have a: "interleave [True, True, False, False, True, True, True, True, False, False, False, False] 100
     (transaction ex_env 7 (Some ''PLN'')) (transaction ex_env2 7 (Some ''PLN'')) ex_session =
     (Done (PaymentOk \<lparr> p_invoice_number = generateInvoiceNumber ex_env,
                        p_service_code = ''PLN'', p_service_name = ''Listrik'',
                        p_transaction_type = PAYMENT, p_total_amount = 3000,
                        p_created_on = 100 \<rparr>),
      Done (PaymentOk \<lparr> p_invoice_number = generateInvoiceNumber ex_env2,
                        p_service_code = ''PLN'', p_service_name = ''Listrik'',
                        p_transaction_type = PAYMENT, p_total_amount = 3000,
                        p_created_on = 100 \<rparr>),
      \<lparr>committed =
         ex_db\<lparr> tbl_balance := [\<lparr>balance_id = 1, user_id = 7, balance_value = 2000\<rparr>],
                tbl_trx_history := tbl_trx_history ex_db @
                  [\<lparr> h_balance_id = 1, invoice_number = generateInvoiceNumber ex_env,
                     amount = 3000, balance_before = 5000, balance_after = 2000,
                     trx_type = PAYMENT, description = ''Listrik'', created_date = 100 \<rparr>,
                   \<lparr> h_balance_id = 1, invoice_number = generateInvoiceNumber ex_env2,
                     amount = 3000, balance_before = 5000, balance_after = 2000,
                     trx_type = PAYMENT, description = ''Listrik'', created_date = 100 \<rparr>] \<rparr>,
       txn = Idle\<rparr>)"
    by (simp add: transaction_def transaction_write_def exec_def ex_session_def ex_db_def
        Let_def is_whole_def)
  let ?s1 = "fst (snd (run (transaction ex_env 7 (Some ''PLN'')) 100 no_fault 0 ex_session))"
  have s1: "?s1 = \<lparr>committed = ex_db\<lparr> tbl_balance := [\<lparr>balance_id = 1, user_id = 7, balance_value = 2000\<rparr>],
          tbl_trx_history := tbl_trx_history ex_db @
            [\<lparr> h_balance_id = 1, invoice_number = generateInvoiceNumber ex_env, amount = 3000,
               balance_before = 5000, balance_after = 2000, trx_type = PAYMENT,
               description = ''Listrik'', created_date = 100 \<rparr>] \<rparr>, txn = Idle\<rparr>"
    using ex_after_payment [of ex_env] by (simp add: ex_payment_PLN no_fault_def)
  have t: "txn ?s1 = Idle" by (simp add: s1)
  have b: "balance_of (committed ?s1) 7 = Some \<lparr>balance_id = 1, user_id = 7, balance_value = 2000\<rparr>"
    by (simp add: s1 balance_of_def)
  have sv: "service_of (committed ?s1) ''PLN'' =
      Some \<lparr>service_code = ''PLN'', service_name = ''Listrik'', service_tariff = 3000\<rparr>"
    by (simp add: s1 service_of_def) (simp add: ex_db_def)
  have "fst (run (transaction ex_env2 7 (Some ''PLN'')) 100 no_fault 0 ?s1) = InsufficientFunds"
    by (simp add: run_transaction [OF t] b sv no_fault_def)
  with a show ?thesis by simp
qed

section \<open>The history listing\<close>

lemma history_leaves_session:
  assumes "txn s = Idle"
  shows "fst (snd (run (history env uid ql qo) now fails 0 s)) = s"
proof (cases "fails 0")
  case True
  with assms show ?thesis by (simp add: history_def Let_def exec_fault)
next
  case False
  with assms show ?thesis
    by (simp add: history_def Let_def exec_def split: option.splits prod.splits qres.splits)
qed

lemma created_desc_sorted: "sorted (rev (map created_date (order_by_created_desc rank hs)))"
proof -
  have "rev (map created_date (order_by_created_desc rank hs)) =
          map created_date (sort_key created_date (sort_key rank hs))"
    by (simp add: order_by_created_desc_def rev_map)
  then show ?thesis by simp
qed

lemma mset_order_by_created_desc: "mset (order_by_created_desc rank hs) = mset hs"
  by (simp add: order_by_created_desc_def)

lemma listing_sorted: "sorted (rev (map v_created_on (listing d uid paging)))"
proof -
  have "map v_created_on (listing d uid paging) =
          map created_date (order_by_created_desc (tie_rank d uid paging) (history_join d uid))"
    by (simp add: listing_def view_of_def)
  then show ?thesis by (simp only: created_desc_sorted)
qed

lemma mset_listing:
  "mset (listing d uid paging) = image_mset view_of (mset (history_join d uid))"
  by (simp add: listing_def mset_order_by_created_desc)





lemma run_history_all:
  assumes "txn s = Idle" and "\<not> fails 0"
  shows "run (history env uid None None) now fails 0 s =
     (if full_listing (committed s) uid = [] then HistoryNotFound
      else HistoryOk (full_listing (committed s) uid), s, [SelectHistory uid None])"
  using assms
  by (simp add: history_def query_param_def exec_def full_listing_def listing_def Let_def)


lemma run_history_one:
  assumes "txn s = Idle" and "\<not> fails 0"
  shows "run (history env uid (Some ls) None) now fails 0 s =
           run (history env uid None None) now fails 0 s"
    and "run (history env uid None (Some os)) now fails 0 s =
           run (history env uid None None) now fails 0 s"
    and "history env uid (Some ls) None = history env uid None None"
    and "history env uid None (Some os) = history env uid None None"
proof -
  show a: "history env uid (Some ls) None = history env uid None None"
    by (simp add: history_def query_param_def)
  show b: "history env uid None (Some os) = history env uid None None"
    by (simp add: history_def query_param_def)
  show "run (history env uid (Some ls) None) now fails 0 s =
           run (history env uid None None) now fails 0 s"
    by (simp only: a)
  show "run (history env uid None (Some os)) now fails 0 s =
           run (history env uid None None) now fails 0 s"
    by (simp only: b)
qed



lemma ex_listing:
  "listing ex_db 7 paging =
     [\<lparr> v_invoice_number = ''INV20251102090000-0002'', v_transaction_type = TOPUP,
        v_description = ''Top Up Balance'', v_total_amount = 3000, v_created_on = 60 \<rparr>,
      \<lparr> v_invoice_number = ''INV20251101080000-0001'', v_transaction_type = TOPUP,
        v_description = ''Top Up Balance'', v_total_amount = 2000, v_created_on = 50 \<rparr>]"
  by (simp add: listing_def order_by_created_desc_def history_join_def view_of_def
      ex_db_def)



text \<open>
  Claim C10. When only one of limit and offset is given, the handler is the very program
  it is with neither: no \<^verbatim>\<open>LIMIT\<close> or \<^verbatim>\<open>OFFSET\<close> is sent, whatever the parameter given
  holds, and on a session with no open transaction the answer is the answer of the request
  with neither parameter: the full listing of the user's rows, newest first (or
  \<open>HistoryNotFound\<close> when it is empty).
\<close>

theorem history_single_parameter_ignored:
  assumes "txn s = Idle" and "\<not> fails 0"
  shows "run (history env uid (Some ls) None) now fails 0 s =
           (if full_listing (committed s) uid = [] then HistoryNotFound
            else HistoryOk (full_listing (committed s) uid), s, [SelectHistory uid None]) \<and>
         run (history env uid None (Some os)) now fails 0 s =
           (if full_listing (committed s) uid = [] then HistoryNotFound
            else HistoryOk (full_listing (committed s) uid), s, [SelectHistory uid None]) \<and>
         run (history env uid (Some ls) None) now fails 0 s =
           run (history env uid None None) now fails 0 s \<and>
         run (history env uid None (Some os)) now fails 0 s =
           run (history env uid None None) now fails 0 s \<and>
         history env uid (Some ls) None = history env uid None None \<and>
         history env uid None (Some os) = history env uid None None \<and>
         sorted (rev (map v_created_on (full_listing (committed s) uid))) \<and>
         mset (full_listing (committed s) uid) =
           image_mset view_of (mset (history_join (committed s) uid))"
proof -
  note one = run_history_one [where fails = fails, OF assms]
  note all = run_history_all [where fails = fails, OF assms]
  have "sorted (rev (map v_created_on (full_listing (committed s) uid)))"
    unfolding full_listing_def by (rule listing_sorted)
  moreover have "mset (full_listing (committed s) uid) =
           image_mset view_of (mset (history_join (committed s) uid))"
    unfolding full_listing_def by (rule mset_listing)
  ultimately show ?thesis
    using one all by simp
qed

text \<open>User 7 asks with a limit only, and with an offset only.\<close>

theorem history_single_parameter_ignored_witness:
  "txn ex_session = Idle \<and> \<not> no_fault 0 \<and>
   run (history ex_env 7 (Some ''1'') None) 100 no_fault 0 ex_session =
     (HistoryOk
        [\<lparr> v_invoice_number = ''INV20251102090000-0002'', v_transaction_type = TOPUP,
           v_description = ''Top Up Balance'', v_total_amount = 3000, v_created_on = 60 \<rparr>,
         \<lparr> v_invoice_number = ''INV20251101080000-0001'', v_transaction_type = TOPUP,
           v_description = ''Top Up Balance'', v_total_amount = 2000, v_created_on = 50 \<rparr>],
      ex_session, [SelectHistory 7 None]) \<and>
   run (history ex_env 7 None (Some ''1'')) 100 no_fault 0 ex_session =
     (HistoryOk
        [\<lparr> v_invoice_number = ''INV20251102090000-0002'', v_transaction_type = TOPUP,
           v_description = ''Top Up Balance'', v_total_amount = 3000, v_created_on = 60 \<rparr>,
         \<lparr> v_invoice_number = ''INV20251101080000-0001'', v_transaction_type = TOPUP,
           v_description = ''Top Up Balance'', v_total_amount = 2000, v_created_on = 50 \<rparr>],
      ex_session, [SelectHistory 7 None])"
proof -
  have h1: "txn ex_session = Idle" by (simp add: ex_session_simps)
  have h2: "\<not> no_fault 0" by (simp add: no_fault_def)
  note t = history_single_parameter_ignored
      [where fails = no_fault and uid = 7 and now = 100 and env = ex_env
         and ls = "''1''" and os = "''1''", OF h1 h2]
  from t have a: "run (history ex_env 7 (Some ''1'') None) 100 no_fault 0 ex_session =
           (if full_listing (committed ex_session) 7 = [] then HistoryNotFound
            else HistoryOk (full_listing (committed ex_session) 7), ex_session,
            [SelectHistory 7 None])"
    by blast
  from t have b: "run (history ex_env 7 None (Some ''1'')) 100 no_fault 0 ex_session =
           (if full_listing (committed ex_session) 7 = [] then HistoryNotFound
            else HistoryOk (full_listing (committed ex_session) 7), ex_session,
            [SelectHistory 7 None])"
    by blast
  from a b h1 h2 show ?thesis
    by (simp add: ex_session_simps full_listing_def ex_listing)
qed

end
